theory Spec2Isabelle
  imports Complex_Main
begin

section \<open>Scenario engine of the mock sensor server\<close>

text \<open>
  A shallow embedding of \<^verbatim>\<open>server/scenarios\<close>: the value record, the status
  classifier, the fourteen scenario classes with their \<^verbatim>\<open>get_value\<close> methods and the
  scenario registry.

  Conventions of the embedding.
  \<^item> A Python \<^verbatim>\<open>float\<close> is a \<^typ>\<open>real\<close>; there is no NaN and no infinity. Arithmetic is
    exact where a reading is computed from the fields of the object and the draws of the
    call. In \<^verbatim>\<open>drift.py\<close> the offset is the same rate added at every call, so that its
    value after some calls is decided by the rounding of each addition: there every
    operation rounds its result to binary64. (The temperature that
    \<^verbatim>\<open>HVACControlScenario\<close> carries from call to call is a sum of draws and is kept
    exact.) \<^verbatim>\<open>round(x, 1)\<close> is rounding to the nearest multiple of one tenth, a tie
    going to the even multiple.
  \<^item> A Python \<^verbatim>\<open>int\<close> is an \<^typ>\<open>int\<close>. Where an \<^verbatim>\<open>int\<close> meets a \<^verbatim>\<open>float\<close> in an operation it
    is converted first, and the conversion of an \<^verbatim>\<open>int\<close> too large for binary64 raises
    \<^verbatim>\<open>OverflowError\<close>.
  \<^item> Statuses and fault codes are the strings the source uses.
  \<^item> The module \<^verbatim>\<open>random\<close> is an explicit generator state: an infinite sequence of unit
    draws, consumed from the front in the order of the calls in the source.
  \<^item> An object is a record; a method takes the object and returns it updated.
  \<^item> A raised exception is the left injection of a sum; it comes with the object and the
    generator as the raising statement finds them, for the callers catch the exception
    and call the same object again.
\<close>

subsection \<open>The random module\<close>

type_synonym rng = "nat \<Rightarrow> real"

definition random_random :: "rng \<Rightarrow> real \<times> rng" where
  "random_random g = (g 0, \<lambda>n. g (Suc n))"

text \<open>\<^verbatim>\<open>random.uniform(a, b)\<close> is \<^verbatim>\<open>a + (b - a) * random()\<close>.\<close>

definition random_uniform :: "real \<Rightarrow> real \<Rightarrow> rng \<Rightarrow> real \<times> rng" where
  "random_uniform a b g = (case random_random g of (u, g') \<Rightarrow> (a + (b - a) * u, g'))"

text \<open>
  \<^verbatim>\<open>random.randint(a, b)\<close> returns an integer of \<open>[a, b]\<close>; it is taken from the next
  unit draw by scaling, which reaches every integer of the range.
\<close>

definition random_randint :: "int \<Rightarrow> int \<Rightarrow> rng \<Rightarrow> int \<times> rng" where
  "random_randint a b g =
     (case random_random g of (u, g') \<Rightarrow> (a + \<lfloor>u * of_int (b - a + 1)\<rfloor>, g'))"

subsection \<open>Rounding to one decimal\<close>

definition round_half_even :: "real \<Rightarrow> int" where
  "round_half_even x =
     (let n = \<lfloor>x\<rfloor>; d = x - of_int n
      in if d < 1 / 2 then n
         else if 1 / 2 < d then n + 1
         else if even n then n else n + 1)"

definition py_round1 :: "real \<Rightarrow> real" where
  "py_round1 x = of_int (round_half_even (x * 10)) / 10"

subsection \<open>Exceptions and the conversion of an int\<close>

datatype py_error = ZeroDivisionError | OverflowError

text \<open>
  The conversion of an \<^verbatim>\<open>int\<close> operand of a \<^verbatim>\<open>float\<close> operation. The largest binary64
  number is \<open>2^1024 - 2^971\<close>; an integer rounds to a binary64 number as long as its
  magnitude is below \<open>2^1024 - 2^970\<close>, and from there on the conversion raises.
\<close>

definition int_to_float :: "int \<Rightarrow> py_error + real" where
  "int_to_float n = (if \<bar>n\<bar> < 2 ^ 1024 - 2 ^ 970 then Inr (of_int n) else Inl OverflowError)"

subsection \<open>Binary64 arithmetic\<close>

text \<open>
  The binary64 number nearest to a real, a tie going to the even significand. Between
  \<open>2^e\<close> and \<open>2^(e+1)\<close> the binary64 numbers are the multiples of \<open>2^(e-52)\<close>; below
  \<open>2^-1022\<close> they are the multiples of \<open>2^-1074\<close>. The exponent is not bounded above
  (no infinity).
\<close>

definition binade :: "real \<Rightarrow> int" where
  "binade x = \<lfloor>log 2 \<bar>x\<bar>\<rfloor>"

definition ulp :: "real \<Rightarrow> real" where
  "ulp x = 2 powi (max (binade x) (- 1022) - 52)"

definition fl :: "real \<Rightarrow> real" where
  "fl x = of_int (round_half_even (x / ulp x)) * ulp x"

text \<open>
  An operation of binary64: its operands are binary64 numbers (a decimal literal such as
  \<^verbatim>\<open>0.1\<close> is the binary64 number nearest to it), and its exact result is rounded.
\<close>

definition fadd :: "real \<Rightarrow> real \<Rightarrow> real" where
  "fadd x y = fl (fl x + fl y)"

definition fsub :: "real \<Rightarrow> real \<Rightarrow> real" where
  "fsub x y = fl (fl x - fl y)"

definition fmul :: "real \<Rightarrow> real \<Rightarrow> real" where
  "fmul x y = fl (fl x * fl y)"

subsection \<open>base.py\<close>

record SensorValue =
  temperature :: real
  humidity :: real
  temp_status :: string
  hum_status :: string
  combined_status :: string
  modbus_error :: "string option"

type_synonym limits = "string \<rightharpoonup> real"

text \<open>\<^verbatim>\<open>limits.get(key, default)\<close>\<close>

definition limits_get :: "limits \<Rightarrow> string \<Rightarrow> real \<Rightarrow> real" where
  "limits_get lims k d = (case lims k of None \<Rightarrow> d | Some v \<Rightarrow> v)"

record BaseScenario =
  temp_base :: real
  temp_variation :: real
  temp_min :: real
  temp_max :: real
  hum_base :: real
  hum_variation :: real
  hum_min :: real
  hum_max :: real
  offline_sensors :: "int list"
  iteration :: int

definition clamp :: "real \<Rightarrow> real \<Rightarrow> real \<Rightarrow> real" where
  "clamp v min_val max_val = max min_val (min max_val v)"

definition calculate_status :: "real \<Rightarrow> real \<Rightarrow> real \<Rightarrow> real \<Rightarrow> real \<Rightarrow> string" where
  "calculate_status v limit_min limit_max warning_delta alarm_delta =
     (if v < limit_min - alarm_delta \<or> v > limit_max + alarm_delta then ''alarm''
      else if v < limit_min - warning_delta \<or> v > limit_max + warning_delta then ''warning''
      else if v < limit_min \<or> v > limit_max then ''warning''
      else ''normal'')"

definition get_combined_status :: "string \<Rightarrow> string \<Rightarrow> string" where
  "get_combined_status ts hs =
     (if ts = ''alarm'' \<or> hs = ''alarm'' then ''alarm''
      else if ts = ''warning'' \<or> hs = ''warning'' then ''warning''
      else ''normal'')"

definition tick :: "'a BaseScenario_scheme \<Rightarrow> 'a BaseScenario_scheme" where
  "tick s = s\<lparr>iteration := iteration s + 1\<rparr>"

text \<open>
  The two value constructions that every \<^verbatim>\<open>get_value\<close> repeats verbatim: the offline
  reading with its fault code, and the reading classified against the limits, a missing
  key of the dictionary being replaced by the default written at the call.
\<close>

definition offline_value :: "string \<Rightarrow> SensorValue" where
  "offline_value err =
     \<lparr>temperature = 0, humidity = 0, temp_status = ''offline'', hum_status = ''offline'',
      combined_status = ''offline'', modbus_error = Some err\<rparr>"

definition classified_value :: "real \<Rightarrow> real \<Rightarrow> limits \<Rightarrow> SensorValue" where
  "classified_value temp hum lims =
     (let ts = calculate_status temp
                 (limits_get lims ''temp_min'' (-10)) (limits_get lims ''temp_max'' 40)
                 (limits_get lims ''temp_warning_delta'' 3)
                 (limits_get lims ''temp_alarm_delta'' 5);
          hs = calculate_status hum
                 (limits_get lims ''hum_min'' 20) (limits_get lims ''hum_max'' 80)
                 (limits_get lims ''hum_warning_delta'' 5)
                 (limits_get lims ''hum_alarm_delta'' 10)
      in \<lparr>temperature = temp, humidity = hum, temp_status = ts, hum_status = hs,
          combined_status = get_combined_status ts hs, modbus_error = None\<rparr>)"

definition forced_normal_value :: "real \<Rightarrow> real \<Rightarrow> SensorValue" where
  "forced_normal_value temp hum =
     \<lparr>temperature = temp, humidity = hum, temp_status = ''normal'', hum_status = ''normal'',
      combined_status = ''normal'', modbus_error = None\<rparr>"

subsection \<open>normal.py\<close>

text \<open>
  What a call of a method does: it raises, or it returns a value; either way it leaves
  the object and the generator in a state.
\<close>

type_synonym 's result = "py_error \<times> 's \<times> rng + SensorValue \<times> 's \<times> rng"

definition NormalScenario_get_value ::
  "BaseScenario \<Rightarrow> int \<Rightarrow> limits \<Rightarrow> rng \<Rightarrow> BaseScenario result" where
  "NormalScenario_get_value s sensor_id lims g =
     (case int_to_float (sensor_id - 1) of
        Inl e \<Rightarrow> Inl (e, s, g)
      | Inr n \<Rightarrow>
      let sensor_offset = n * 0.3 in
      case random_uniform (- temp_variation s) (temp_variation s) g of (nt, g1) \<Rightarrow>
      case random_uniform (- hum_variation s) (hum_variation s) g1 of (nh, g2) \<Rightarrow>
      let temp = temp_base s + sensor_offset + nt;
          hum = hum_base s + nh;
          temp = clamp temp (temp_min s) (temp_max s);
          hum = clamp hum (hum_min s) (hum_max s);
          temp = py_round1 temp;
          hum = py_round1 hum
      in Inr (classified_value temp hum lims, s, g2))"

subsection \<open>drift.py\<close>

record DriftUpScenario = BaseScenario +
  drift_rate :: real
  current_offset :: real

text \<open>
  The sensor bias is computed, and its conversion may raise, before the offset is updated.
  The operations are those of binary64; the noise is taken as the library returns it.
\<close>

definition DriftUpScenario_get_value ::
  "DriftUpScenario \<Rightarrow> int \<Rightarrow> limits \<Rightarrow> rng \<Rightarrow> DriftUpScenario result" where
  "DriftUpScenario_get_value s0 sensor_id lims g =
     (case int_to_float (sensor_id - 1) of
        Inl e \<Rightarrow> Inl (e, s0, g)
      | Inr n \<Rightarrow>
      let sensor_offset = fmul n 0.3;
          s = s0\<lparr>current_offset := fadd (current_offset s0) (drift_rate s0)\<rparr>;
          temp = fadd (fadd (temp_base s) sensor_offset) (current_offset s) in
      case random_uniform (fmul (- temp_variation s) 0.5) (fmul (temp_variation s) 0.5) g
      of (nt, g1) \<Rightarrow>
      let temp = fadd temp nt;
          hum = fsub (hum_base s) (fmul (current_offset s) 0.5) in
      case random_uniform (- hum_variation s) (hum_variation s) g1 of (nh, g2) \<Rightarrow>
      let hum = fadd hum nh;
          temp = clamp temp (temp_min s) (temp_max s);
          hum = clamp hum (hum_min s) (hum_max s);
          temp = py_round1 temp;
          hum = py_round1 hum
      in Inr (classified_value temp hum lims, s, g2))"

record DriftDownScenario = BaseScenario +
  drift_rate :: real
  current_offset :: real

definition DriftDownScenario_get_value ::
  "DriftDownScenario \<Rightarrow> int \<Rightarrow> limits \<Rightarrow> rng \<Rightarrow> DriftDownScenario result" where
  "DriftDownScenario_get_value s0 sensor_id lims g =
     (case int_to_float (sensor_id - 1) of
        Inl e \<Rightarrow> Inl (e, s0, g)
      | Inr n \<Rightarrow>
      let sensor_offset = fmul n 0.3;
          s = s0\<lparr>DriftDownScenario.current_offset :=
                   fsub (DriftDownScenario.current_offset s0) (DriftDownScenario.drift_rate s0)\<rparr>;
          temp = fadd (fadd (temp_base s) sensor_offset) (DriftDownScenario.current_offset s) in
      case random_uniform (fmul (- temp_variation s) 0.5) (fmul (temp_variation s) 0.5) g
      of (nt, g1) \<Rightarrow>
      let temp = fadd temp nt;
          hum = fsub (hum_base s) (fmul (DriftDownScenario.current_offset s) 0.5) in
      case random_uniform (- hum_variation s) (hum_variation s) g1 of (nh, g2) \<Rightarrow>
      let hum = fadd hum nh;
          temp = clamp temp (temp_min s) (temp_max s);
          hum = clamp hum (hum_min s) (hum_max s);
          temp = py_round1 temp;
          hum = py_round1 hum
      in Inr (classified_value temp hum lims, s, g2))"

subsection \<open>sine.py\<close>

record SineScenario = BaseScenario +
  period :: int
  amplitude :: real

text \<open>
  The iteration counter and the period are \<^verbatim>\<open>int\<close> operands of \<^verbatim>\<open>float\<close> operations, in
  this order. The division by \<^verbatim>\<open>self.period\<close> raises when the period is zero, before any
  draw.
\<close>

definition SineScenario_get_value ::
  "SineScenario \<Rightarrow> int \<Rightarrow> limits \<Rightarrow> rng \<Rightarrow> SineScenario result" where
  "SineScenario_get_value s sensor_id lims g =
     (case int_to_float (sensor_id - 1) of
        Inl e \<Rightarrow> Inl (e, s, g)
      | Inr n \<Rightarrow>
      let sensor_offset = n * 0.3;
          phase_shift = n * (2 * pi / 10) in
      case int_to_float (iteration s) of
        Inl e \<Rightarrow> Inl (e, s, g)
      | Inr it \<Rightarrow>
      case int_to_float (period s) of
        Inl e \<Rightarrow> Inl (e, s, g)
      | Inr p \<Rightarrow>
      if p = 0 then Inl (ZeroDivisionError, s, g)
      else
        let sine_value = sin (2 * pi * it / p + phase_shift);
            temp = temp_base s + sensor_offset + amplitude s * sine_value in
        case random_uniform (- temp_variation s * 0.3) (temp_variation s * 0.3) g of (nt, g1) \<Rightarrow>
        let temp = temp + nt;
            hum = hum_base s - (amplitude s * 2) * sine_value in
        case random_uniform (- hum_variation s * 0.5) (hum_variation s * 0.5) g1 of (nh, g2) \<Rightarrow>
        let hum = hum + nh;
            temp = clamp temp (temp_min s) (temp_max s);
            hum = clamp hum (hum_min s) (hum_max s);
            temp = py_round1 temp;
            hum = py_round1 hum;
            s' = s\<lparr>iteration := iteration s + 1\<rparr>
        in Inr (classified_value temp hum lims, s', g2))"

subsection \<open>errors.py\<close>

definition OfflineScenario_get_value ::
  "BaseScenario \<Rightarrow> int \<Rightarrow> limits \<Rightarrow> rng \<Rightarrow> BaseScenario result" where
  "OfflineScenario_get_value s sensor_id lims g = Inr (offline_value ''timeout'', s, g)"

record IntermittentScenario = BaseScenario +
  failure_rate :: real

definition IntermittentScenario_get_value ::
  "IntermittentScenario \<Rightarrow> int \<Rightarrow> limits \<Rightarrow> rng \<Rightarrow> IntermittentScenario result" where
  "IntermittentScenario_get_value s sensor_id lims g =
     (case random_random g of (r, g0) \<Rightarrow>
      if r < failure_rate s then Inr (offline_value ''timeout'', s, g0)
      else
        case int_to_float (sensor_id - 1) of
          Inl e \<Rightarrow> Inl (e, s, g0)
        | Inr n \<Rightarrow>
        let sensor_offset = n * 0.3 in
        case random_uniform (- temp_variation s) (temp_variation s) g0 of (nt, g1) \<Rightarrow>
        case random_uniform (- hum_variation s) (hum_variation s) g1 of (nh, g2) \<Rightarrow>
        let temp = temp_base s + sensor_offset + nt;
            hum = hum_base s + nh;
            temp = py_round1 (clamp temp (temp_min s) (temp_max s));
            hum = py_round1 (clamp hum (hum_min s) (hum_max s))
        in Inr (classified_value temp hum lims, s, g2))"

record TimeoutScenario = BaseScenario +
  timeout_rate :: real

definition TimeoutScenario_get_value ::
  "TimeoutScenario \<Rightarrow> int \<Rightarrow> limits \<Rightarrow> rng \<Rightarrow> TimeoutScenario result" where
  "TimeoutScenario_get_value s sensor_id lims g =
     (case random_random g of (r, g0) \<Rightarrow>
      if r < timeout_rate s then Inr (offline_value ''timeout'', s, g0)
      else
        case int_to_float (sensor_id - 1) of
          Inl e \<Rightarrow> Inl (e, s, g0)
        | Inr n \<Rightarrow>
        let sensor_offset = n * 0.3 in
        case random_uniform (- temp_variation s) (temp_variation s) g0 of (nt, g1) \<Rightarrow>
        case random_uniform (- hum_variation s) (hum_variation s) g1 of (nh, g2) \<Rightarrow>
        let temp = temp_base s + sensor_offset + nt;
            hum = hum_base s + nh;
            temp = py_round1 (clamp temp (temp_min s) (temp_max s));
            hum = py_round1 (clamp hum (hum_min s) (hum_max s))
        in Inr (forced_normal_value temp hum, s, g2))"

record CRCErrorScenario = BaseScenario +
  crc_error_rate :: real

definition CRCErrorScenario_get_value ::
  "CRCErrorScenario \<Rightarrow> int \<Rightarrow> limits \<Rightarrow> rng \<Rightarrow> CRCErrorScenario result" where
  "CRCErrorScenario_get_value s sensor_id lims g =
     (case random_random g of (r, g0) \<Rightarrow>
      if r < crc_error_rate s then Inr (offline_value ''crc_error'', s, g0)
      else
        case int_to_float (sensor_id - 1) of
          Inl e \<Rightarrow> Inl (e, s, g0)
        | Inr n \<Rightarrow>
        let sensor_offset = n * 0.3 in
        case random_uniform (- temp_variation s) (temp_variation s) g0 of (nt, g1) \<Rightarrow>
        case random_uniform (- hum_variation s) (hum_variation s) g1 of (nh, g2) \<Rightarrow>
        let temp = temp_base s + sensor_offset + nt;
            hum = hum_base s + nh;
            temp = py_round1 (clamp temp (temp_min s) (temp_max s));
            hum = py_round1 (clamp hum (hum_min s) (hum_max s))
        in Inr (forced_normal_value temp hum, s, g2))"

text \<open>
  \<^verbatim>\<open>_offline_sensors\<close>, the set drawn once by the constructor, is the field
  \<open>drawn_offline_sensors\<close>; \<^verbatim>\<open>offline_sensors\<close> is the list of the base class.
\<close>

record PartialOfflineScenario = BaseScenario +
  offline_probability :: real
  drawn_offline_sensors :: "int set"

definition PartialOfflineScenario_get_value ::
  "PartialOfflineScenario \<Rightarrow> int \<Rightarrow> limits \<Rightarrow> rng \<Rightarrow> PartialOfflineScenario result" where
  "PartialOfflineScenario_get_value s sensor_id lims g =
     (if sensor_id \<in> drawn_offline_sensors s \<or> sensor_id \<in> set (offline_sensors s)
      then Inr (offline_value ''timeout'', s, g)
      else
        case int_to_float (sensor_id - 1) of
          Inl e \<Rightarrow> Inl (e, s, g)
        | Inr n \<Rightarrow>
        let sensor_offset = n * 0.3 in
        case random_uniform (- temp_variation s) (temp_variation s) g of (nt, g1) \<Rightarrow>
        case random_uniform (- hum_variation s) (hum_variation s) g1 of (nh, g2) \<Rightarrow>
        let temp = temp_base s + sensor_offset + nt;
            hum = hum_base s + nh;
            temp = py_round1 (clamp temp (temp_min s) (temp_max s));
            hum = py_round1 (clamp hum (hum_min s) (hum_max s))
        in Inr (classified_value temp hum lims, s, g2))"

subsection \<open>realworld.py\<close>

text \<open>The wall clock read by \<^verbatim>\<open>datetime.now()\<close>: the hour and the minute of the day.\<close>

type_synonym clock = "nat \<times> nat"

record DailyCycleScenario = BaseScenario +
  day_temp :: real
  night_temp :: real

definition DailyCycleScenario_get_value ::
  "DailyCycleScenario \<Rightarrow> int \<Rightarrow> limits \<Rightarrow> clock \<Rightarrow> rng \<Rightarrow> DailyCycleScenario result" where
  "DailyCycleScenario_get_value s sensor_id lims now g =
     (let hour = real (fst now) + real (snd now) / 60;
          daily_factor = sin ((hour - 8) * pi / 12);
          temp_amplitude = (day_temp s - night_temp s) / 2;
          temp_center = (day_temp s + night_temp s) / 2 in
      case int_to_float (sensor_id - 1) of
        Inl e \<Rightarrow> Inl (e, s, g)
      | Inr n \<Rightarrow>
      let sensor_offset = n * 0.2;
          temp = temp_center + temp_amplitude * daily_factor + sensor_offset in
      case random_uniform (- 1) 1 g of (nt, g1) \<Rightarrow>
      let temp = temp + nt;
          hum = hum_base s - 10 * daily_factor in
      case random_uniform (- hum_variation s) (hum_variation s) g1 of (nh, g2) \<Rightarrow>
      let hum = hum + nh;
          temp = py_round1 (clamp temp (temp_min s) (temp_max s));
          hum = py_round1 (clamp hum (hum_min s) (hum_max s))
      in Inr (classified_value temp hum lims, s, g2))"

record HVACControlScenario = BaseScenario +
  setpoint :: real
  hysteresis :: real
  hvac_on :: bool
  current_temp :: real

definition HVACControlScenario_get_value ::
  "HVACControlScenario \<Rightarrow> int \<Rightarrow> limits \<Rightarrow> rng \<Rightarrow> HVACControlScenario result" where
  "HVACControlScenario_get_value s0 sensor_id lims g =
     (let s1 = (if current_temp s0 > setpoint s0 + hysteresis s0 then s0\<lparr>hvac_on := True\<rparr>
                else if current_temp s0 < setpoint s0 - hysteresis s0 then s0\<lparr>hvac_on := False\<rparr>
                else s0) in
      case (if hvac_on s1
            then (case random_uniform 0.1 0.3 g of
                    (d, g0) \<Rightarrow> (s1\<lparr>current_temp := current_temp s1 - d\<rparr>, g0))
            else (case random_uniform 0.05 0.15 g of
                    (d, g0) \<Rightarrow> (s1\<lparr>current_temp := current_temp s1 + d\<rparr>, g0)))
      of (s, g0) \<Rightarrow>
      case int_to_float (sensor_id - 1) of
        Inl e \<Rightarrow> Inl (e, s, g0)
      | Inr n \<Rightarrow>
      let sensor_offset = n * 0.1 in
      case random_uniform (- 0.3) 0.3 g0 of (nt, g1) \<Rightarrow>
      let temp = current_temp s + sensor_offset + nt;
          hum = hum_base s + (if hvac_on s then 5 else - 2) in
      case random_uniform (- hum_variation s * 0.5) (hum_variation s * 0.5) g1 of (nh, g2) \<Rightarrow>
      let hum = hum + nh;
          temp = py_round1 (clamp temp (temp_min s) (temp_max s));
          hum = py_round1 (clamp hum (hum_min s) (hum_max s))
      in Inr (classified_value temp hum lims, s, g2))"

record DoorOpenScenario = BaseScenario +
  open_probability :: real
  outside_temp :: real
  door_open :: bool
  door_timer :: int

text \<open>
  The first two statements of \<^verbatim>\<open>DoorOpenScenario.get_value\<close>: the random opening (the
  draw is made only while the door is closed) and the countdown.
\<close>

definition door_update :: "DoorOpenScenario \<Rightarrow> rng \<Rightarrow> DoorOpenScenario \<times> rng" where
  "door_update s0 g =
     (case (if \<not> door_open s0
            then (case random_random g of (r, g0) \<Rightarrow>
                    if r < open_probability s0
                    then (case random_randint 5 15 g0 of
                            (k, g1) \<Rightarrow> (s0\<lparr>door_open := True, door_timer := k\<rparr>, g1))
                    else (s0, g0))
            else (s0, g))
      of (s1, g1) \<Rightarrow>
        if door_open s1
        then (let s2 = s1\<lparr>door_timer := door_timer s1 - 1\<rparr>
              in (if door_timer s2 \<le> 0 then s2\<lparr>door_open := False\<rparr> else s2, g1))
        else (s1, g1))"

definition DoorOpenScenario_get_value ::
  "DoorOpenScenario \<Rightarrow> int \<Rightarrow> limits \<Rightarrow> rng \<Rightarrow> DoorOpenScenario result" where
  "DoorOpenScenario_get_value s0 sensor_id lims g =
     (case door_update s0 g of (s, g0) \<Rightarrow>
      case int_to_float (sensor_id - 1) of
        Inl e \<Rightarrow> Inl (e, s, g0)
      | Inr n \<Rightarrow>
      let sensor_offset = n * 0.3 in
      case (if door_open s
            then (let temp = temp_base s + (outside_temp s - temp_base s) * 0.3 in
                  case random_uniform (- 2) 2 g0 of (nt, g1) \<Rightarrow>
                  case random_uniform (- 10) 10 g1 of (nh, g2) \<Rightarrow>
                    (temp + nt, hum_base s + nh, g2))
            else (let temp = temp_base s + sensor_offset in
                  case random_uniform (- temp_variation s) (temp_variation s) g0 of (nt, g1) \<Rightarrow>
                  case random_uniform (- hum_variation s) (hum_variation s) g1 of (nh, g2) \<Rightarrow>
                    (temp + nt, hum_base s + nh, g2)))
      of (temp, hum, g2) \<Rightarrow>
      let temp = py_round1 (clamp temp (temp_min s) (temp_max s));
          hum = py_round1 (clamp hum (hum_min s) (hum_max s))
      in Inr (classified_value temp hum lims, s, g2))"

record PowerOutageScenario = BaseScenario +
  outage_probability :: real
  power_off :: bool
  outage_timer :: int

definition PowerOutageScenario_get_value ::
  "PowerOutageScenario \<Rightarrow> int \<Rightarrow> limits \<Rightarrow> rng \<Rightarrow> PowerOutageScenario result" where
  "PowerOutageScenario_get_value s0 sensor_id lims g =
     (case (if \<not> power_off s0
            then (case random_random g of (r, g0) \<Rightarrow>
                    if r < outage_probability s0
                    then (case random_randint 10 30 g0 of
                            (k, g1) \<Rightarrow> (s0\<lparr>power_off := True, outage_timer := k\<rparr>, g1))
                    else (s0, g0))
            else (s0, g))
      of (s1, g1) \<Rightarrow>
        if power_off s1
        then (let s2 = s1\<lparr>outage_timer := outage_timer s1 - 1\<rparr>;
                  s3 = (if outage_timer s2 \<le> 0 then s2\<lparr>power_off := False\<rparr> else s2)
              in Inr (offline_value ''no_power'', s3, g1))
        else
          case int_to_float (sensor_id - 1) of
            Inl e \<Rightarrow> Inl (e, s1, g1)
          | Inr n \<Rightarrow>
          let sensor_offset = n * 0.3 in
          case random_uniform (- temp_variation s1) (temp_variation s1) g1 of (nt, g2) \<Rightarrow>
          case random_uniform (- hum_variation s1) (hum_variation s1) g2 of (nh, g3) \<Rightarrow>
          let temp = temp_base s1 + sensor_offset + nt;
              hum = hum_base s1 + nh;
              temp = py_round1 (clamp temp (temp_min s1) (temp_max s1));
              hum = py_round1 (clamp hum (hum_min s1) (hum_max s1))
          in Inr (forced_normal_value temp hum, s1, g3))"

record SensorFailureScenario = BaseScenario +
  failure_rate :: real
  failed_sensors :: "int set"

definition garbage_value :: "real \<Rightarrow> real \<Rightarrow> SensorValue" where
  "garbage_value temp hum =
     \<lparr>temperature = temp, humidity = hum, temp_status = ''alarm'', hum_status = ''alarm'',
      combined_status = ''alarm'', modbus_error = Some ''invalid_data''\<rparr>"

text \<open>The first statement of \<^verbatim>\<open>SensorFailureScenario.get_value\<close>: the random failure.\<close>

definition failure_update ::
  "SensorFailureScenario \<Rightarrow> int \<Rightarrow> rng \<Rightarrow> SensorFailureScenario \<times> rng" where
  "failure_update s0 sensor_id g =
     (if sensor_id \<notin> failed_sensors s0
      then (case random_random g of (r, g0) \<Rightarrow>
              if r < failure_rate s0
              then (s0\<lparr>failed_sensors := insert sensor_id (failed_sensors s0)\<rparr>, g0)
              else (s0, g0))
      else (s0, g))"

definition SensorFailureScenario_get_value ::
  "SensorFailureScenario \<Rightarrow> int \<Rightarrow> limits \<Rightarrow> rng \<Rightarrow> SensorFailureScenario result" where
  "SensorFailureScenario_get_value s0 sensor_id lims g =
     (case failure_update s0 sensor_id g of (s, g0) \<Rightarrow>
      if sensor_id \<in> failed_sensors s
      then (case random_random g0 of (r, g1) \<Rightarrow>
              if r < 0.5 then Inr (offline_value ''sensor_failure'', s, g1)
              else (case random_uniform (- 40) 85 g1 of (t, g2) \<Rightarrow>
                    case random_uniform 0 100 g2 of (h, g3) \<Rightarrow>
                      Inr (garbage_value (py_round1 t) (py_round1 h), s, g3)))
      else
        case int_to_float (sensor_id - 1) of
          Inl e \<Rightarrow> Inl (e, s, g0)
        | Inr n \<Rightarrow>
        let sensor_offset = n * 0.3 in
        case random_uniform (- temp_variation s) (temp_variation s) g0 of (nt, g1) \<Rightarrow>
        case random_uniform (- hum_variation s) (hum_variation s) g1 of (nh, g2) \<Rightarrow>
        let temp = temp_base s + sensor_offset + nt;
            hum = hum_base s + nh;
            temp = py_round1 (clamp temp (temp_min s) (temp_max s));
            hum = py_round1 (clamp hum (hum_min s) (hum_max s))
        in Inr (classified_value temp hum lims, s, g2))"

subsection \<open>The polymorphic call\<close>

text \<open>
  A scenario object is an instance of one of the fourteen classes; \<^verbatim>\<open>get_value\<close> on it
  runs the method of its class. Only \<^verbatim>\<open>DailyCycleScenario\<close> reads the clock.
\<close>

datatype scenario =
    Normal BaseScenario
  | DriftUp DriftUpScenario
  | DriftDown DriftDownScenario
  | Sine SineScenario
  | Offline BaseScenario
  | Intermittent IntermittentScenario
  | Timeout TimeoutScenario
  | CRCError CRCErrorScenario
  | PartialOffline PartialOfflineScenario
  | DailyCycle DailyCycleScenario
  | HVACControl HVACControlScenario
  | DoorOpen DoorOpenScenario
  | PowerOutage PowerOutageScenario
  | SensorFailure SensorFailureScenario

text \<open>The result of the method of a class, as a result of the object.\<close>

definition returned :: "('s \<Rightarrow> scenario) \<Rightarrow> 's result \<Rightarrow> scenario result" where
  "returned C r =
     (case r of
        Inl (e, s, g) \<Rightarrow> Inl (e, C s, g)
      | Inr (v, s, g) \<Rightarrow> Inr (v, C s, g))"

fun get_value :: "scenario \<Rightarrow> int \<Rightarrow> limits \<Rightarrow> clock \<Rightarrow> rng \<Rightarrow> scenario result" where
  "get_value (Normal s) i lims now g = returned Normal (NormalScenario_get_value s i lims g)"
| "get_value (DriftUp s) i lims now g = returned DriftUp (DriftUpScenario_get_value s i lims g)"
| "get_value (DriftDown s) i lims now g =
     returned DriftDown (DriftDownScenario_get_value s i lims g)"
| "get_value (Sine s) i lims now g = returned Sine (SineScenario_get_value s i lims g)"
| "get_value (Offline s) i lims now g = returned Offline (OfflineScenario_get_value s i lims g)"
| "get_value (Intermittent s) i lims now g =
     returned Intermittent (IntermittentScenario_get_value s i lims g)"
| "get_value (Timeout s) i lims now g = returned Timeout (TimeoutScenario_get_value s i lims g)"
| "get_value (CRCError s) i lims now g =
     returned CRCError (CRCErrorScenario_get_value s i lims g)"
| "get_value (PartialOffline s) i lims now g =
     returned PartialOffline (PartialOfflineScenario_get_value s i lims g)"
| "get_value (DailyCycle s) i lims now g =
     returned DailyCycle (DailyCycleScenario_get_value s i lims now g)"
| "get_value (HVACControl s) i lims now g =
     returned HVACControl (HVACControlScenario_get_value s i lims g)"
| "get_value (DoorOpen s) i lims now g =
     returned DoorOpen (DoorOpenScenario_get_value s i lims g)"
| "get_value (PowerOutage s) i lims now g =
     returned PowerOutage (PowerOutageScenario_get_value s i lims g)"
| "get_value (SensorFailure s) i lims now g =
     returned SensorFailure (SensorFailureScenario_get_value s i lims g)"

text \<open>The fields of the base class of a scenario object.\<close>

fun base_of :: "scenario \<Rightarrow> BaseScenario" where
  "base_of (Normal s) = s"
| "base_of (DriftUp s) = BaseScenario.truncate s"
| "base_of (DriftDown s) = BaseScenario.truncate s"
| "base_of (Sine s) = BaseScenario.truncate s"
| "base_of (Offline s) = s"
| "base_of (Intermittent s) = BaseScenario.truncate s"
| "base_of (Timeout s) = BaseScenario.truncate s"
| "base_of (CRCError s) = BaseScenario.truncate s"
| "base_of (PartialOffline s) = BaseScenario.truncate s"
| "base_of (DailyCycle s) = BaseScenario.truncate s"
| "base_of (HVACControl s) = BaseScenario.truncate s"
| "base_of (DoorOpen s) = BaseScenario.truncate s"
| "base_of (PowerOutage s) = BaseScenario.truncate s"
| "base_of (SensorFailure s) = BaseScenario.truncate s"

subsection \<open>The registry\<close>

text \<open>
  The keyword arguments of a constructor call: an argument is either absent or given.
  Every constructor passes the arguments it does not name to the base class, which
  ignores the ones it does not know.
\<close>

record kwargs =
  kw_temp_base :: "real option"
  kw_temp_variation :: "real option"
  kw_temp_min :: "real option"
  kw_temp_max :: "real option"
  kw_hum_base :: "real option"
  kw_hum_variation :: "real option"
  kw_hum_min :: "real option"
  kw_hum_max :: "real option"
  kw_offline_sensors :: "int list option"
  kw_drift_rate :: "real option"
  kw_period :: "int option"
  kw_amplitude :: "real option"
  kw_failure_rate :: "real option"
  kw_timeout_rate :: "real option"
  kw_crc_error_rate :: "real option"
  kw_offline_probability :: "real option"
  kw_day_temp :: "real option"
  kw_night_temp :: "real option"
  kw_setpoint :: "real option"
  kw_hysteresis :: "real option"
  kw_open_probability :: "real option"
  kw_outside_temp :: "real option"
  kw_outage_probability :: "real option"

definition arg :: "'a option \<Rightarrow> 'a \<Rightarrow> 'a" where
  "arg given dflt = (case given of None \<Rightarrow> dflt | Some v \<Rightarrow> v)"

definition BaseScenario_init :: "kwargs \<Rightarrow> BaseScenario" where
  "BaseScenario_init kw =
     \<lparr>temp_base = arg (kw_temp_base kw) 22, temp_variation = arg (kw_temp_variation kw) 2,
      temp_min = arg (kw_temp_min kw) (- 40), temp_max = arg (kw_temp_max kw) 85,
      hum_base = arg (kw_hum_base kw) 45, hum_variation = arg (kw_hum_variation kw) 5,
      hum_min = arg (kw_hum_min kw) 0, hum_max = arg (kw_hum_max kw) 100,
      offline_sensors = arg (kw_offline_sensors kw) [], iteration = 0\<rparr>"

text \<open>
  The loop of \<^verbatim>\<open>PartialOfflineScenario.__init__\<close> over \<^verbatim>\<open>range(1, 11)\<close>: one draw
  for each sensor id.
\<close>

fun draw_offline_sensors :: "real \<Rightarrow> int list \<Rightarrow> int set \<Rightarrow> rng \<Rightarrow> int set \<times> rng" where
  "draw_offline_sensors p [] acc g = (acc, g)"
| "draw_offline_sensors p (i # ids) acc g =
     (case random_random g of (r, g') \<Rightarrow>
        draw_offline_sensors p ids (if r < p then insert i acc else acc) g')"

datatype scenario_class =
    NormalScenario_class
  | DriftUpScenario_class
  | DriftDownScenario_class
  | SineScenario_class
  | OfflineScenario_class
  | IntermittentScenario_class
  | TimeoutScenario_class
  | CRCErrorScenario_class
  | PartialOfflineScenario_class
  | DailyCycleScenario_class
  | HVACControlScenario_class
  | DoorOpenScenario_class
  | PowerOutageScenario_class
  | SensorFailureScenario_class

text \<open>Calling a class with keyword arguments runs its \<^verbatim>\<open>__init__\<close>.\<close>

fun instantiate :: "scenario_class \<Rightarrow> kwargs \<Rightarrow> rng \<Rightarrow> scenario \<times> rng" where
  "instantiate NormalScenario_class kw g = (Normal (BaseScenario_init kw), g)"
| "instantiate DriftUpScenario_class kw g =
     (DriftUp (BaseScenario.extend (BaseScenario_init kw)
        (DriftUpScenario.fields (arg (kw_drift_rate kw) 0.1) 0)), g)"
| "instantiate DriftDownScenario_class kw g =
     (DriftDown (BaseScenario.extend (BaseScenario_init kw)
        (DriftDownScenario.fields (arg (kw_drift_rate kw) 0.1) 0)), g)"
| "instantiate SineScenario_class kw g =
     (Sine (BaseScenario.extend (BaseScenario_init kw)
        (SineScenario.fields (arg (kw_period kw) 60) (arg (kw_amplitude kw) 5))), g)"
| "instantiate OfflineScenario_class kw g = (Offline (BaseScenario_init kw), g)"
| "instantiate IntermittentScenario_class kw g =
     (Intermittent (BaseScenario.extend (BaseScenario_init kw)
        (IntermittentScenario.fields (arg (kw_failure_rate kw) 0.2))), g)"
| "instantiate TimeoutScenario_class kw g =
     (Timeout (BaseScenario.extend (BaseScenario_init kw)
        (TimeoutScenario.fields (arg (kw_timeout_rate kw) 0.3))), g)"
| "instantiate CRCErrorScenario_class kw g =
     (CRCError (BaseScenario.extend (BaseScenario_init kw)
        (CRCErrorScenario.fields (arg (kw_crc_error_rate kw) 0.15))), g)"
| "instantiate PartialOfflineScenario_class kw g =
     (let p = arg (kw_offline_probability kw) 0.3 in
      case draw_offline_sensors p [1..10] {} g of (chosen, g') \<Rightarrow>
        (PartialOffline (BaseScenario.extend (BaseScenario_init kw)
           (PartialOfflineScenario.fields p chosen)), g'))"
| "instantiate DailyCycleScenario_class kw g =
     (DailyCycle (BaseScenario.extend (BaseScenario_init kw)
        (DailyCycleScenario.fields (arg (kw_day_temp kw) 25) (arg (kw_night_temp kw) 18))), g)"
| "instantiate HVACControlScenario_class kw g =
     (let sp = arg (kw_setpoint kw) 22 in
      (HVACControl (BaseScenario.extend (BaseScenario_init kw)
         (HVACControlScenario.fields sp (arg (kw_hysteresis kw) 1) False sp)), g))"
| "instantiate DoorOpenScenario_class kw g =
     (DoorOpen (BaseScenario.extend (BaseScenario_init kw)
        (DoorOpenScenario.fields (arg (kw_open_probability kw) 0.1)
           (arg (kw_outside_temp kw) 35) False 0)), g)"
| "instantiate PowerOutageScenario_class kw g =
     (PowerOutage (BaseScenario.extend (BaseScenario_init kw)
        (PowerOutageScenario.fields (arg (kw_outage_probability kw) 0.05) False 0)), g)"
| "instantiate SensorFailureScenario_class kw g =
     (SensorFailure (BaseScenario.extend (BaseScenario_init kw)
        (SensorFailureScenario.fields (arg (kw_failure_rate kw) 0.01) {})), g)"

definition SCENARIOS :: "(string \<times> scenario_class) list" where
  "SCENARIOS =
     [(''normal'', NormalScenario_class),
      (''drift_up'', DriftUpScenario_class),
      (''drift_down'', DriftDownScenario_class),
      (''sine'', SineScenario_class),
      (''offline'', OfflineScenario_class),
      (''intermittent'', IntermittentScenario_class),
      (''timeout'', TimeoutScenario_class),
      (''crc_error'', CRCErrorScenario_class),
      (''partial_offline'', PartialOfflineScenario_class),
      (''daily_cycle'', DailyCycleScenario_class),
      (''hvac_control'', HVACControlScenario_class),
      (''door_open'', DoorOpenScenario_class),
      (''power_outage'', PowerOutageScenario_class),
      (''sensor_failure'', SensorFailureScenario_class)]"

text \<open>\<^verbatim>\<open>SCENARIOS.get(name, NormalScenario)(**kwargs)\<close>\<close>

definition get_scenario :: "string \<Rightarrow> kwargs \<Rightarrow> rng \<Rightarrow> scenario \<times> rng" where
  "get_scenario name kw g =
     (let scenario_class = (case map_of SCENARIOS name of
                              None \<Rightarrow> NormalScenario_class
                            | Some c \<Rightarrow> c)
      in instantiate scenario_class kw g)"

text \<open>The class an object is an instance of.\<close>

fun class_of :: "scenario \<Rightarrow> scenario_class" where
  "class_of (Normal s) = NormalScenario_class"
| "class_of (DriftUp s) = DriftUpScenario_class"
| "class_of (DriftDown s) = DriftDownScenario_class"
| "class_of (Sine s) = SineScenario_class"
| "class_of (Offline s) = OfflineScenario_class"
| "class_of (Intermittent s) = IntermittentScenario_class"
| "class_of (Timeout s) = TimeoutScenario_class"
| "class_of (CRCError s) = CRCErrorScenario_class"
| "class_of (PartialOffline s) = PartialOfflineScenario_class"
| "class_of (DailyCycle s) = DailyCycleScenario_class"
| "class_of (HVACControl s) = HVACControlScenario_class"
| "class_of (DoorOpen s) = DoorOpenScenario_class"
| "class_of (PowerOutage s) = PowerOutageScenario_class"
| "class_of (SensorFailure s) = SensorFailureScenario_class"

text \<open>A call without keyword arguments: every parameter takes its default.\<close>

definition no_kwargs :: kwargs where
  "no_kwargs =
     \<lparr>kw_temp_base = None, kw_temp_variation = None, kw_temp_min = None, kw_temp_max = None,
      kw_hum_base = None, kw_hum_variation = None, kw_hum_min = None, kw_hum_max = None,
      kw_offline_sensors = None, kw_drift_rate = None, kw_period = None, kw_amplitude = None,
      kw_failure_rate = None, kw_timeout_rate = None, kw_crc_error_rate = None,
      kw_offline_probability = None, kw_day_temp = None, kw_night_temp = None,
      kw_setpoint = None, kw_hysteresis = None, kw_open_probability = None,
      kw_outside_temp = None, kw_outage_probability = None\<rparr>"

subsection \<open>Callers and vocabulary of the properties\<close>

text \<open>
  A driver calls \<^verbatim>\<open>get_value\<close> of one object again and again, each time with a sensor id
  and a limits dictionary, and goes on with the same object after a call that raised
  (the generation loops catch the exception); \<open>calls\<close> runs such a sequence on a method
  and collects what each call gave: the error raised or the value returned.
\<close>

fun calls ::
  "('s \<Rightarrow> int \<Rightarrow> limits \<Rightarrow> rng \<Rightarrow> 's result) \<Rightarrow> 's \<Rightarrow> rng \<Rightarrow> (int \<times> limits) list
     \<Rightarrow> (py_error + SensorValue) list \<times> 's \<times> rng" where
  "calls m s g [] = ([], s, g)"
| "calls m s g ((i, lims) # cs) =
     (case m s i lims g of
        Inl (e, s1, g1) \<Rightarrow>
          (case calls m s1 g1 cs of (rs, s2, g2) \<Rightarrow> (Inl e # rs, s2, g2))
      | Inr (v, s1, g1) \<Rightarrow>
          (case calls m s1 g1 cs of (rs, s2, g2) \<Rightarrow> (Inr v # rs, s2, g2)))"

text \<open>
  The calls of a sequence whose sensor id converts to a \<^verbatim>\<open>float\<close>, and the offset of a
  drift after \<open>n\<close> additions of the rate in binary64.
\<close>

definition returning :: "(int \<times> limits) list \<Rightarrow> nat" where
  "returning cs = length (filter (\<lambda>c. \<not> isl (int_to_float (fst c - 1))) cs)"

fun drifted :: "real \<Rightarrow> real \<Rightarrow> nat \<Rightarrow> real" where
  "drifted a r 0 = a"
| "drifted a r (Suc n) = fadd (drifted a r n) r"

text \<open>A generator whose every draw is the same number.\<close>

definition constant_draws :: "real \<Rightarrow> rng" where
  "constant_draws u = (\<lambda>n. u)"

text \<open>The defaults written at the \<^verbatim>\<open>limits.get\<close> calls, as a dictionary.\<close>

definition default_limits :: limits where
  "default_limits =
     map_of [(''temp_min'', - 10), (''temp_max'', 40),
             (''temp_warning_delta'', 3), (''temp_alarm_delta'', 5),
             (''hum_min'', 20), (''hum_max'', 80),
             (''hum_warning_delta'', 5), (''hum_alarm_delta'', 10)]"

text \<open>The classes whose \<^verbatim>\<open>get_value\<close> writes the status normal without classifying.\<close>

fun forces_normal :: "scenario \<Rightarrow> bool" where
  "forces_normal (Timeout s) = True"
| "forces_normal (CRCError s) = True"
| "forces_normal (PowerOutage s) = True"
| "forces_normal sc = False"

text \<open>
  The value returned by a call: a result of clamping and then rounding, for the
  temperature and for the humidity, and what a call returns in all.
\<close>

definition shaped :: "real \<Rightarrow> real \<Rightarrow> real \<Rightarrow> real \<Rightarrow> real \<Rightarrow> real \<Rightarrow> bool" where
  "shaped tmin tmax hmin hmax t h \<longleftrightarrow>
     (\<exists>rt. t = py_round1 (clamp rt tmin tmax)) \<and> (\<exists>rh. h = py_round1 (clamp rh hmin hmax))"

definition outcome ::
  "bool \<Rightarrow> real \<Rightarrow> real \<Rightarrow> real \<Rightarrow> real \<Rightarrow> limits \<Rightarrow> SensorValue \<Rightarrow> bool" where
  "outcome forced tmin tmax hmin hmax lims v \<longleftrightarrow>
     (\<exists>err. v = offline_value err) \<or>
     (\<exists>t h. v = garbage_value t h) \<or>
     (\<exists>t h. shaped tmin tmax hmin hmax t h \<and>
        v = (if forced then forced_normal_value t h else classified_value t h lims))"


section \<open>The status classifier\<close>

text \<open>
  C1. The classifier returns alarm when the value is below \<open>min - alarm_delta\<close> or above
  \<open>max + alarm_delta\<close>; otherwise warning when it is below \<open>min - warning_delta\<close>, above
  \<open>max + warning_delta\<close>, below \<open>min\<close> or above \<open>max\<close> (one flattened disjunction);
  otherwise normal. With min -10, max 40, warning delta 3 and alarm delta 5 the values
  39, 41, 44, 46 and -16 classify as normal, warning, warning, alarm and alarm.
\<close>

theorem calculate_status_contract:
  "calculate_status v mn mx wd ad =
     (if v < mn - ad \<or> v > mx + ad then ''alarm''
      else if v < mn - wd \<or> v > mx + wd \<or> v < mn \<or> v > mx then ''warning''
      else ''normal'')
   \<and> calculate_status 39 (-10) 40 3 5 = ''normal''
   \<and> calculate_status 41 (-10) 40 3 5 = ''warning''
   \<and> calculate_status 44 (-10) 40 3 5 = ''warning''
   \<and> calculate_status 46 (-10) 40 3 5 = ''alarm''
   \<and> calculate_status (-16) (-10) 40 3 5 = ''alarm''"
  by (simp add: calculate_status_def)

text \<open>
  C3. The combined status is alarm when either argument is alarm, otherwise warning when
  either is warning, otherwise normal. An alarm argument forces alarm whatever the other
  argument is, two normal arguments give normal, warning with normal gives warning, and
  the result is never offline.
\<close>

theorem get_combined_status_contract:
  "get_combined_status ts hs =
     (if ts = ''alarm'' \<or> hs = ''alarm'' then ''alarm''
      else if ts = ''warning'' \<or> hs = ''warning'' then ''warning''
      else ''normal'')
   \<and> get_combined_status ''alarm'' hs = ''alarm''
   \<and> get_combined_status ts ''alarm'' = ''alarm''
   \<and> get_combined_status ''normal'' ''normal'' = ''normal''
   \<and> get_combined_status ''warning'' ''normal'' = ''warning''
   \<and> get_combined_status ts hs \<noteq> ''offline''
   \<and> get_combined_status ts hs \<in> {''alarm'', ''warning'', ''normal''}"
  by (simp add: get_combined_status_def)

section \<open>Rounding, clamping and the shape of a returned value\<close>

lemma round_half_even_of_int: "round_half_even (of_int k) = k"
  by (simp add: round_half_even_def)

lemma round_half_even_ge: "of_int k \<le> x \<Longrightarrow> k \<le> round_half_even x"
proof -
  assume "of_int k \<le> x"
  then have "k \<le> \<lfloor>x\<rfloor>" by (simp add: le_floor_iff)
  then show ?thesis by (simp add: round_half_even_def Let_def)
qed

lemma round_half_even_le: "x \<le> of_int k \<Longrightarrow> round_half_even x \<le> k"
proof (cases "x = of_int k")
  case True
  then show ?thesis by (simp add: round_half_even_of_int)
next
  case False
  assume "x \<le> of_int k"
  with False have "x < of_int k" by simp
  then have "\<lfloor>x\<rfloor> < k" by (simp add: floor_less_iff)
  then show ?thesis by (simp add: round_half_even_def Let_def)
qed

lemma py_round1_fixed: "py_round1 b = b \<Longrightarrow> b * 10 = of_int (round_half_even (b * 10))"
  by (simp add: py_round1_def) 

lemma py_round1_between:
  assumes "lo \<le> x" "x \<le> hi" "py_round1 lo = lo" "py_round1 hi = hi"
  shows "lo \<le> py_round1 x \<and> py_round1 x \<le> hi"
proof -
  obtain k where k: "lo * 10 = of_int k" using py_round1_fixed [OF assms(3)] by blast
  obtain m where m: "hi * 10 = of_int m" using py_round1_fixed [OF assms(4)] by blast
  have "of_int k \<le> x * 10" using assms(1) k by simp
  then have 1: "k \<le> round_half_even (x * 10)" by (rule round_half_even_ge)
  have "x * 10 \<le> of_int m" using assms(2) m by simp
  then have 2: "round_half_even (x * 10) \<le> m" by (rule round_half_even_le)
  have "lo = of_int k / 10" "hi = of_int m / 10" using k m by simp_all
  then show ?thesis using 1 2 by (simp add: py_round1_def divide_le_cancel)
qed

lemma clamp_between: "lo \<le> hi \<Longrightarrow> lo \<le> clamp v lo hi \<and> clamp v lo hi \<le> hi"
  by (simp add: clamp_def)

lemma shapedI:
  "shaped tmin tmax hmin hmax (py_round1 (clamp rt tmin tmax)) (py_round1 (clamp rh hmin hmax))"
  unfolding shaped_def by blast

lemma outcome_classified:
  "outcome False tmin tmax hmin hmax lims
     (classified_value (py_round1 (clamp rt tmin tmax)) (py_round1 (clamp rh hmin hmax)) lims)"
  unfolding outcome_def using shapedI by fastforce

lemma outcome_forced:
  "outcome True tmin tmax hmin hmax lims
     (forced_normal_value (py_round1 (clamp rt tmin tmax)) (py_round1 (clamp rh hmin hmax)))"
  unfolding outcome_def using shapedI by fastforce

lemma outcome_offline: "outcome f tmin tmax hmin hmax lims (offline_value e)"
  unfolding outcome_def by blast

lemma outcome_garbage: "outcome f tmin tmax hmin hmax lims (garbage_value t h)"
  unfolding outcome_def by blast

lemmas rnd = random_uniform_def random_random_def random_randint_def
lemmas outs = outcome_classified outcome_forced outcome_offline outcome_garbage

lemma Normal_outcome:
  "NormalScenario_get_value s i lims g = Inr (v, s', g') \<Longrightarrow>
   outcome False (temp_min s) (temp_max s) (hum_min s) (hum_max s) lims v"
  by (auto simp: NormalScenario_get_value_def Let_def rnd outs
      split: sum.splits prod.splits if_splits)

lemma DriftUp_outcome:
  "DriftUpScenario_get_value s i lims g = Inr (v, s', g') \<Longrightarrow>
   outcome False (temp_min s) (temp_max s) (hum_min s) (hum_max s) lims v"
  by (auto simp: DriftUpScenario_get_value_def Let_def rnd outs
      split: sum.splits prod.splits if_splits)

lemma DriftDown_outcome:
  "DriftDownScenario_get_value s i lims g = Inr (v, s', g') \<Longrightarrow>
   outcome False (temp_min s) (temp_max s) (hum_min s) (hum_max s) lims v"
  by (auto simp: DriftDownScenario_get_value_def Let_def rnd outs
      split: sum.splits prod.splits if_splits)

lemma Sine_outcome:
  "SineScenario_get_value s i lims g = Inr (v, s', g') \<Longrightarrow>
   outcome False (temp_min s) (temp_max s) (hum_min s) (hum_max s) lims v"
  by (auto simp: SineScenario_get_value_def Let_def rnd outs
      split: sum.splits prod.splits if_splits)

lemma Offline_outcome:
  "OfflineScenario_get_value s i lims g = Inr (v, s', g') \<Longrightarrow>
   outcome False (temp_min s) (temp_max s) (hum_min s) (hum_max s) lims v"
  by (auto simp: OfflineScenario_get_value_def Let_def rnd outs
      split: sum.splits prod.splits if_splits)

lemma Intermittent_outcome:
  "IntermittentScenario_get_value s i lims g = Inr (v, s', g') \<Longrightarrow>
   outcome False (temp_min s) (temp_max s) (hum_min s) (hum_max s) lims v"
  by (auto simp: IntermittentScenario_get_value_def Let_def rnd outs
      split: sum.splits prod.splits if_splits)

lemma Timeout_outcome:
  "TimeoutScenario_get_value s i lims g = Inr (v, s', g') \<Longrightarrow>
   outcome True (temp_min s) (temp_max s) (hum_min s) (hum_max s) lims v"
  by (auto simp: TimeoutScenario_get_value_def Let_def rnd outs
      split: sum.splits prod.splits if_splits)

lemma CRCError_outcome:
  "CRCErrorScenario_get_value s i lims g = Inr (v, s', g') \<Longrightarrow>
   outcome True (temp_min s) (temp_max s) (hum_min s) (hum_max s) lims v"
  by (auto simp: CRCErrorScenario_get_value_def Let_def rnd outs
      split: sum.splits prod.splits if_splits)

lemma PartialOffline_outcome:
  "PartialOfflineScenario_get_value s i lims g = Inr (v, s', g') \<Longrightarrow>
   outcome False (temp_min s) (temp_max s) (hum_min s) (hum_max s) lims v"
  by (auto simp: PartialOfflineScenario_get_value_def Let_def rnd outs
      split: sum.splits prod.splits if_splits)

lemma DailyCycle_outcome:
  "DailyCycleScenario_get_value s i lims now g = Inr (v, s', g') \<Longrightarrow>
   outcome False (temp_min s) (temp_max s) (hum_min s) (hum_max s) lims v"
  by (auto simp: DailyCycleScenario_get_value_def Let_def rnd outs
      split: sum.splits prod.splits if_splits)

lemma HVACControl_outcome:
  "HVACControlScenario_get_value s i lims g = Inr (v, s', g') \<Longrightarrow>
   outcome False (temp_min s) (temp_max s) (hum_min s) (hum_max s) lims v"
  by (auto simp: HVACControlScenario_get_value_def Let_def rnd outs
      split: sum.splits prod.splits if_splits)

lemma DoorOpen_outcome:
  "DoorOpenScenario_get_value s i lims g = Inr (v, s', g') \<Longrightarrow>
   outcome False (temp_min s) (temp_max s) (hum_min s) (hum_max s) lims v"
  by (auto simp: DoorOpenScenario_get_value_def door_update_def Let_def rnd outs
      split: sum.splits prod.splits if_splits)

lemma PowerOutage_outcome:
  "PowerOutageScenario_get_value s i lims g = Inr (v, s', g') \<Longrightarrow>
   outcome True (temp_min s) (temp_max s) (hum_min s) (hum_max s) lims v"
  by (auto simp: PowerOutageScenario_get_value_def Let_def rnd outs
      split: sum.splits prod.splits if_splits)

lemma SensorFailure_outcome:
  "SensorFailureScenario_get_value s i lims g = Inr (v, s', g') \<Longrightarrow>
   outcome False (temp_min s) (temp_max s) (hum_min s) (hum_max s) lims v"
  by (auto simp: SensorFailureScenario_get_value_def failure_update_def Let_def rnd outs
      split: sum.splits prod.splits if_splits)

lemma get_value_outcome:
  assumes "get_value sc i lims now g = Inr (v, sc', g')"
  shows "outcome (forces_normal sc) (temp_min (base_of sc)) (temp_max (base_of sc))
           (hum_min (base_of sc)) (hum_max (base_of sc)) lims v"
proof (cases sc)
  case (Normal s) with assms show ?thesis
    by (auto simp: returned_def BaseScenario.truncate_def split: sum.splits dest!: Normal_outcome)
next
  case (DriftUp s) with assms show ?thesis
    by (auto simp: returned_def BaseScenario.truncate_def split: sum.splits dest!: DriftUp_outcome)
next
  case (DriftDown s) with assms show ?thesis
    by (auto simp: returned_def BaseScenario.truncate_def split: sum.splits dest!: DriftDown_outcome)
next
  case (Sine s) with assms show ?thesis
    by (auto simp: returned_def BaseScenario.truncate_def split: sum.splits dest!: Sine_outcome)
next
  case (Offline s) with assms show ?thesis
    by (auto simp: returned_def BaseScenario.truncate_def split: sum.splits dest!: Offline_outcome)
next
  case (Intermittent s) with assms show ?thesis
    by (auto simp: returned_def BaseScenario.truncate_def split: sum.splits dest!: Intermittent_outcome)
next
  case (Timeout s) with assms show ?thesis
    by (auto simp: returned_def BaseScenario.truncate_def split: sum.splits dest!: Timeout_outcome)
next
  case (CRCError s) with assms show ?thesis
    by (auto simp: returned_def BaseScenario.truncate_def split: sum.splits dest!: CRCError_outcome)
next
  case (PartialOffline s) with assms show ?thesis
    by (auto simp: returned_def BaseScenario.truncate_def split: sum.splits dest!: PartialOffline_outcome)
next
  case (DailyCycle s) with assms show ?thesis
    by (auto simp: returned_def BaseScenario.truncate_def split: sum.splits dest!: DailyCycle_outcome)
next
  case (HVACControl s) with assms show ?thesis
    by (auto simp: returned_def BaseScenario.truncate_def split: sum.splits dest!: HVACControl_outcome)
next
  case (DoorOpen s) with assms show ?thesis
    by (auto simp: returned_def BaseScenario.truncate_def split: sum.splits dest!: DoorOpen_outcome)
next
  case (PowerOutage s) with assms show ?thesis
    by (auto simp: returned_def BaseScenario.truncate_def split: sum.splits dest!: PowerOutage_outcome)
next
  case (SensorFailure s) with assms show ?thesis
    by (auto simp: returned_def BaseScenario.truncate_def split: sum.splits dest!: SensorFailure_outcome)
qed

lemmas get_value_defs =
  NormalScenario_get_value_def DriftUpScenario_get_value_def DriftDownScenario_get_value_def
  SineScenario_get_value_def OfflineScenario_get_value_def IntermittentScenario_get_value_def
  TimeoutScenario_get_value_def CRCErrorScenario_get_value_def
  PartialOfflineScenario_get_value_def DailyCycleScenario_get_value_def
  HVACControlScenario_get_value_def DoorOpenScenario_get_value_def door_update_def
  PowerOutageScenario_get_value_def SensorFailureScenario_get_value_def failure_update_def

lemma get_value_keeps_bounds:
  assumes "get_value sc i lims now g = Inr (v, sc', g')"
  shows "temp_min (base_of sc') = temp_min (base_of sc) \<and>
         temp_max (base_of sc') = temp_max (base_of sc) \<and>
         hum_min (base_of sc') = hum_min (base_of sc) \<and>
         hum_max (base_of sc') = hum_max (base_of sc)"
  using assms
  by (cases sc)
     (auto simp: returned_def get_value_defs rnd Let_def BaseScenario.truncate_def
           split: prod.splits sum.splits if_splits)

lemma outcome_in_bounds:
  assumes "outcome f tmin tmax hmin hmax lims v" "modbus_error v = None"
    "tmin \<le> tmax" "hmin \<le> hmax"
    "py_round1 tmin = tmin" "py_round1 tmax = tmax" "py_round1 hmin = hmin" "py_round1 hmax = hmax"
  shows "tmin \<le> temperature v \<and> temperature v \<le> tmax \<and> hmin \<le> humidity v \<and> humidity v \<le> hmax"
proof -
  from assms(1,2) obtain rt rh where
    t: "temperature v = py_round1 (clamp rt tmin tmax)" and
    h: "humidity v = py_round1 (clamp rh hmin hmax)"
    by (auto simp: outcome_def shaped_def offline_value_def garbage_value_def
        forced_normal_value_def classified_value_def Let_def split: if_splits)
  show ?thesis
    using py_round1_between [of tmin "clamp rt tmin tmax" tmax]
      py_round1_between [of hmin "clamp rh hmin hmax" hmax]
      clamp_between [of tmin tmax rt] clamp_between [of hmin hmax rh] assms(3-) t h
    by simp
qed

lemmas fields_defs =
  DriftUpScenario.fields_def DriftDownScenario.fields_def SineScenario.fields_def
  IntermittentScenario.fields_def TimeoutScenario.fields_def CRCErrorScenario.fields_def
  PartialOfflineScenario.fields_def DailyCycleScenario.fields_def
  HVACControlScenario.fields_def DoorOpenScenario.fields_def PowerOutageScenario.fields_def
  SensorFailureScenario.fields_def

lemmas eval_defs =
  get_scenario_def SCENARIOS_def no_kwargs_def BaseScenario_init_def arg_def
  get_value_defs rnd constant_draws_def clamp_def py_round1_def round_half_even_def
  classified_value_def forced_normal_value_def offline_value_def garbage_value_def
  calculate_status_def limits_get_def get_combined_status_def returned_def Let_def
  BaseScenario.truncate_def BaseScenario.extend_def fields_defs int_to_float_def

lemma outcome_classifies:
  assumes "outcome False tmin tmax hmin hmax lims v" "modbus_error v = None"
  shows "temp_status v = calculate_status (temperature v)
           (limits_get lims ''temp_min'' (- 10)) (limits_get lims ''temp_max'' 40)
           (limits_get lims ''temp_warning_delta'' 3) (limits_get lims ''temp_alarm_delta'' 5) \<and>
         hum_status v = calculate_status (humidity v)
           (limits_get lims ''hum_min'' 20) (limits_get lims ''hum_max'' 80)
           (limits_get lims ''hum_warning_delta'' 5) (limits_get lims ''hum_alarm_delta'' 10) \<and>
         combined_status v = get_combined_status (temp_status v) (hum_status v)"
  using assms
  by (auto simp: outcome_def offline_value_def garbage_value_def classified_value_def Let_def)

lemma outcome_clamped_rounded:
  assumes "outcome f tmin tmax hmin hmax lims v" "modbus_error v = None"
  shows "(\<exists>rt. temperature v = py_round1 (clamp rt tmin tmax)) \<and>
         (\<exists>rh. humidity v = py_round1 (clamp rh hmin hmax))"
  using assms
  by (auto simp: outcome_def shaped_def offline_value_def garbage_value_def
      forced_normal_value_def classified_value_def Let_def split: if_splits)


section \<open>The registry\<close>

lemma class_of_instantiate: "class_of (fst (instantiate c kw g)) = c"
  by (cases c) (simp_all add: Let_def split: prod.splits)

lemma distinct_SCENARIOS: "distinct (map fst SCENARIOS)"
  by (simp add: SCENARIOS_def)

text \<open>
  C7. For a name that is not a key of the registry, \<open>get_scenario\<close> returns what it
  returns for the name normal, an instance of \<open>NormalScenario\<close>; for a name of the registry
  it returns an instance of the class registered under that name. No call raises.
\<close>

theorem get_scenario_class:
  "(name \<notin> fst ` set SCENARIOS \<longrightarrow>
      get_scenario name kw g = get_scenario ''normal'' kw g \<and>
      class_of (fst (get_scenario name kw g)) = NormalScenario_class) \<and>
   ((name, c) \<in> set SCENARIOS \<longrightarrow> class_of (fst (get_scenario name kw g)) = c)"
proof (intro conjI impI)
  assume "name \<notin> fst ` set SCENARIOS"
  then have n: "map_of SCENARIOS name = None"
    by (simp add: map_of_eq_None_iff)
  have m: "map_of SCENARIOS ''normal'' = Some NormalScenario_class"
    by (simp add: SCENARIOS_def)
  show "get_scenario name kw g = get_scenario ''normal'' kw g"
    by (simp add: get_scenario_def n m)
  show "class_of (fst (get_scenario name kw g)) = NormalScenario_class"
    by (simp add: get_scenario_def n)
next
  assume "(name, c) \<in> set SCENARIOS"
  then have "map_of SCENARIOS name = Some c"
    using distinct_SCENARIOS by (rule_tac map_of_is_SomeI)
  then show "class_of (fst (get_scenario name kw g)) = c"
    by (simp add: get_scenario_def class_of_instantiate)
qed

theorem get_scenario_class_witness:
  "''not_a_real_name'' \<notin> fst ` set SCENARIOS \<and>
   (''sine'', SineScenario_class) \<in> set SCENARIOS \<and>
   class_of (fst (get_scenario ''not_a_real_name'' no_kwargs (constant_draws (1 / 2)))) = NormalScenario_class \<and>
   class_of (fst (get_scenario ''sine'' no_kwargs (constant_draws (1 / 2)))) = SineScenario_class"
proof -
  have a: "''not_a_real_name'' \<notin> fst ` set SCENARIOS"
    by (simp add: SCENARIOS_def)
  have b: "(''sine'', SineScenario_class) \<in> set SCENARIOS"
    by (simp add: SCENARIOS_def)
  show ?thesis
    using a b
      get_scenario_class [of "''not_a_real_name''" no_kwargs "constant_draws (1 / 2)" SineScenario_class]
      get_scenario_class [of "''sine''" no_kwargs "constant_draws (1 / 2)" SineScenario_class]
    by blast
qed

section \<open>The clamp invariant\<close>

text \<open>
  C2, as stated, fails. A value is clamped and then rounded, so a bound that is not a
  multiple of one tenth can be crossed by the rounding: with \<open>temp_max = 39.96\<close> a raw
  temperature of 50 is clamped to 39.96 and rounded to 40.0. And \<open>_clamp\<close> returns the
  lower bound when the bounds are in the wrong order: with \<open>temp_min = 50\<close> and
  \<open>temp_max = 40\<close> it returns 50.
\<close>

theorem clamp_invariant_counterexample:
  "get_value
     (fst (get_scenario ''normal''
        (no_kwargs\<lparr>kw_temp_base := Some 50, kw_temp_variation := Some 0,
                    kw_temp_max := Some 39.96\<rparr>) (constant_draws (1 / 2))))
     1 Map.empty (12, 0) (constant_draws (1 / 2))
   = Inr (\<lparr>temperature = 40, humidity = 45, temp_status = ''normal'', hum_status = ''normal'',
           combined_status = ''normal'', modbus_error = None\<rparr>,
          fst (get_scenario ''normal''
            (no_kwargs\<lparr>kw_temp_base := Some 50, kw_temp_variation := Some 0,
                        kw_temp_max := Some 39.96\<rparr>) (constant_draws (1 / 2))),
          constant_draws (1 / 2))
   \<and> temp_max (base_of (fst (get_scenario ''normal''
         (no_kwargs\<lparr>kw_temp_base := Some 50, kw_temp_variation := Some 0,
                     kw_temp_max := Some 39.96\<rparr>) (constant_draws (1 / 2))))) = 39.96
   \<and> \<not> (40 :: real) \<le> 39.96
   \<and> get_value
     (fst (get_scenario ''normal''
        (no_kwargs\<lparr>kw_temp_min := Some 50, kw_temp_max := Some 40\<rparr>) (constant_draws (1 / 2))))
     1 Map.empty (12, 0) (constant_draws (1 / 2))
   = Inr (\<lparr>temperature = 50, humidity = 45, temp_status = ''alarm'', hum_status = ''normal'',
           combined_status = ''alarm'', modbus_error = None\<rparr>,
          fst (get_scenario ''normal''
            (no_kwargs\<lparr>kw_temp_min := Some 50, kw_temp_max := Some 40\<rparr>)
            (constant_draws (1 / 2))),
          constant_draws (1 / 2))
   \<and> temp_max (base_of (fst (get_scenario ''normal''
         (no_kwargs\<lparr>kw_temp_min := Some 50, kw_temp_max := Some 40\<rparr>)
         (constant_draws (1 / 2))))) = 40
   \<and> \<not> (50 :: real) \<le> 40"
  by (simp add: eval_defs)

text \<open>
  C2, amended. For every scenario, every state of it and every draw, a returned value that
  is not a fault reading (no fault code) has its temperature between \<open>temp_min\<close> and
  \<open>temp_max\<close> and its humidity between \<open>hum_min\<close> and \<open>hum_max\<close>, provided that each
  lower bound is at most its upper bound and that the four bounds are multiples of one
  tenth (rounding leaves them unchanged), as the default bounds -40, 85, 0 and 100 are.
  The call leaves the four bounds of the object unchanged.
\<close>

theorem clamp_invariant:
  assumes "get_value sc i lims now g = Inr (v, sc', g')"
    and "modbus_error v = None"
    and "temp_min (base_of sc) \<le> temp_max (base_of sc)"
    and "hum_min (base_of sc) \<le> hum_max (base_of sc)"
    and "py_round1 (temp_min (base_of sc)) = temp_min (base_of sc)"
    and "py_round1 (temp_max (base_of sc)) = temp_max (base_of sc)"
    and "py_round1 (hum_min (base_of sc)) = hum_min (base_of sc)"
    and "py_round1 (hum_max (base_of sc)) = hum_max (base_of sc)"
  shows "temp_min (base_of sc) \<le> temperature v \<and> temperature v \<le> temp_max (base_of sc) \<and>
         hum_min (base_of sc) \<le> humidity v \<and> humidity v \<le> hum_max (base_of sc) \<and>
         temp_min (base_of sc') = temp_min (base_of sc) \<and>
         temp_max (base_of sc') = temp_max (base_of sc) \<and>
         hum_min (base_of sc') = hum_min (base_of sc) \<and>
         hum_max (base_of sc') = hum_max (base_of sc)"
  using outcome_in_bounds [OF get_value_outcome [OF assms(1)] assms(2-)]
    get_value_keeps_bounds [OF assms(1)]
  by simp

theorem clamp_invariant_witness:
  "get_value (fst (get_scenario ''normal'' no_kwargs (constant_draws (1 / 2))))
     1 Map.empty (12, 0) (constant_draws (1 / 2))
   = Inr (\<lparr>temperature = 22, humidity = 45, temp_status = ''normal'', hum_status = ''normal'',
           combined_status = ''normal'', modbus_error = None\<rparr>,
          fst (get_scenario ''normal'' no_kwargs (constant_draws (1 / 2))),
          constant_draws (1 / 2))
   \<and> temp_min (base_of (fst (get_scenario ''normal'' no_kwargs (constant_draws (1 / 2))))) = - 40
   \<and> temp_max (base_of (fst (get_scenario ''normal'' no_kwargs (constant_draws (1 / 2))))) = 85
   \<and> hum_min (base_of (fst (get_scenario ''normal'' no_kwargs (constant_draws (1 / 2))))) = 0
   \<and> hum_max (base_of (fst (get_scenario ''normal'' no_kwargs (constant_draws (1 / 2))))) = 100
   \<and> py_round1 (- 40) = - 40 \<and> py_round1 85 = 85 \<and> py_round1 0 = 0 \<and> py_round1 100 = 100
   \<and> - 40 \<le> (22 :: real) \<and> (22 :: real) \<le> 85 \<and> 0 \<le> (45 :: real) \<and> (45 :: real) \<le> 100"
proof -
  let ?sc = "fst (get_scenario ''normal'' no_kwargs (constant_draws (1 / 2)))"
  let ?v = "\<lparr>temperature = 22, humidity = 45, temp_status = ''normal'', hum_status = ''normal'',
           combined_status = ''normal'', modbus_error = None\<rparr>"
  have r: "get_value ?sc 1 Map.empty (12, 0) (constant_draws (1 / 2))
           = Inr (?v, ?sc, constant_draws (1 / 2))"
    by (simp add: eval_defs)
  have b: "temp_min (base_of ?sc) = - 40" "temp_max (base_of ?sc) = 85"
    "hum_min (base_of ?sc) = 0" "hum_max (base_of ?sc) = 100"
    by (simp_all add: eval_defs)
  have p: "py_round1 (- 40) = - 40" "py_round1 85 = 85" "py_round1 0 = 0" "py_round1 100 = 100"
    by (simp_all add: py_round1_def round_half_even_def)
  have "temp_min (base_of ?sc) \<le> temperature ?v \<and> temperature ?v \<le> temp_max (base_of ?sc) \<and>
        hum_min (base_of ?sc) \<le> humidity ?v \<and> humidity ?v \<le> hum_max (base_of ?sc)"
    using clamp_invariant [OF r] b p by simp
  with r b p show ?thesis by simp
qed


section \<open>Rounding before classification\<close>

text \<open>
  C4, as stated, fails on the non-fault paths of \<open>TimeoutScenario\<close>, \<open>CRCErrorScenario\<close>
  and \<open>PowerOutageScenario\<close>: there the value is clamped and rounded, but no
  classification is applied to it. A timeout scenario around 60 degrees returns the
  rounded temperature 60.0 with the status normal, where the classification of 60.0
  against the default limits is alarm.
\<close>

theorem round_then_classify_counterexample:
  "get_value
     (fst (get_scenario ''timeout''
        (no_kwargs\<lparr>kw_temp_base := Some 60, kw_temp_variation := Some 0\<rparr>)
        (constant_draws (1 / 2))))
     1 Map.empty (12, 0) (constant_draws (1 / 2))
   = Inr (\<lparr>temperature = 60, humidity = 45, temp_status = ''normal'', hum_status = ''normal'',
           combined_status = ''normal'', modbus_error = None\<rparr>,
          fst (get_scenario ''timeout''
            (no_kwargs\<lparr>kw_temp_base := Some 60, kw_temp_variation := Some 0\<rparr>)
            (constant_draws (1 / 2))),
          constant_draws (1 / 2))
   \<and> calculate_status 60 (limits_get Map.empty ''temp_min'' (- 10))
        (limits_get Map.empty ''temp_max'' 40) (limits_get Map.empty ''temp_warning_delta'' 3)
        (limits_get Map.empty ''temp_alarm_delta'' 5) = ''alarm''
   \<and> ''normal'' \<noteq> ''alarm''"
  by (simp add: eval_defs)

text \<open>
  C4, amended. In every generation path that returns no fault reading, of every scenario,
  the temperature and the humidity returned are a value clamped to the bounds of the
  scenario and then rounded to one decimal. In every scenario other than
  \<open>TimeoutScenario\<close>, \<open>CRCErrorScenario\<close> and \<open>PowerOutageScenario\<close>, the statuses returned
  are the classification of these rounded values (a missing limit taking its default),
  and the combined status is their combination. A raw 40.04 is rounded to 40.0, which
  classifies as normal under a maximum of 40, where 40.04 itself would be a warning.
\<close>

theorem round_then_classify:
  assumes "get_value sc i lims now g = Inr (v, sc', g')" and "modbus_error v = None"
  shows "(\<exists>rt. temperature v = py_round1 (clamp rt (temp_min (base_of sc)) (temp_max (base_of sc)))) \<and>
         (\<exists>rh. humidity v = py_round1 (clamp rh (hum_min (base_of sc)) (hum_max (base_of sc)))) \<and>
         (\<not> forces_normal sc \<longrightarrow>
            temp_status v = calculate_status (temperature v)
              (limits_get lims ''temp_min'' (- 10)) (limits_get lims ''temp_max'' 40)
              (limits_get lims ''temp_warning_delta'' 3) (limits_get lims ''temp_alarm_delta'' 5) \<and>
            hum_status v = calculate_status (humidity v)
              (limits_get lims ''hum_min'' 20) (limits_get lims ''hum_max'' 80)
              (limits_get lims ''hum_warning_delta'' 5) (limits_get lims ''hum_alarm_delta'' 10) \<and>
            combined_status v = get_combined_status (temp_status v) (hum_status v)) \<and>
         py_round1 (clamp 40.04 (- 40) 85) = 40 \<and>
         calculate_status 40 (- 10) 40 3 5 = ''normal'' \<and>
         calculate_status 40.04 (- 10) 40 3 5 = ''warning''"
proof -
  note o = get_value_outcome [OF assms(1)]
  have 1: "(\<exists>rt. temperature v = py_round1 (clamp rt (temp_min (base_of sc)) (temp_max (base_of sc)))) \<and>
         (\<exists>rh. humidity v = py_round1 (clamp rh (hum_min (base_of sc)) (hum_max (base_of sc))))"
    using outcome_clamped_rounded [OF o assms(2)] .
  have 2: "\<not> forces_normal sc \<longrightarrow>
            temp_status v = calculate_status (temperature v)
              (limits_get lims ''temp_min'' (- 10)) (limits_get lims ''temp_max'' 40)
              (limits_get lims ''temp_warning_delta'' 3) (limits_get lims ''temp_alarm_delta'' 5) \<and>
            hum_status v = calculate_status (humidity v)
              (limits_get lims ''hum_min'' 20) (limits_get lims ''hum_max'' 80)
              (limits_get lims ''hum_warning_delta'' 5) (limits_get lims ''hum_alarm_delta'' 10) \<and>
            combined_status v = get_combined_status (temp_status v) (hum_status v)"
    using o outcome_classifies [of _ _ _ _ lims v] assms(2) by auto
  have 3: "py_round1 (clamp 40.04 (- 40) 85) = 40"
    by (simp add: clamp_def py_round1_def round_half_even_def)
  have 4: "calculate_status 40 (- 10) 40 3 5 = ''normal''"
    "calculate_status 40.04 (- 10) 40 3 5 = ''warning''"
    by (simp_all add: calculate_status_def)
  from 1 2 3 4 show ?thesis by blast
qed

theorem round_then_classify_witness:
  "get_value
     (fst (get_scenario ''normal''
        (no_kwargs\<lparr>kw_temp_base := Some 40.04, kw_temp_variation := Some 0\<rparr>)
        (constant_draws (1 / 2))))
     1 Map.empty (12, 0) (constant_draws (1 / 2))
   = Inr (\<lparr>temperature = 40, humidity = 45, temp_status = ''normal'', hum_status = ''normal'',
           combined_status = ''normal'', modbus_error = None\<rparr>,
          fst (get_scenario ''normal''
            (no_kwargs\<lparr>kw_temp_base := Some 40.04, kw_temp_variation := Some 0\<rparr>)
            (constant_draws (1 / 2))),
          constant_draws (1 / 2))
   \<and> \<not> forces_normal (fst (get_scenario ''normal''
            (no_kwargs\<lparr>kw_temp_base := Some 40.04, kw_temp_variation := Some 0\<rparr>)
            (constant_draws (1 / 2))))
   \<and> ''normal'' = calculate_status 40
              (limits_get Map.empty ''temp_min'' (- 10)) (limits_get Map.empty ''temp_max'' 40)
              (limits_get Map.empty ''temp_warning_delta'' 3)
              (limits_get Map.empty ''temp_alarm_delta'' 5)"
proof -
  let ?sc = "fst (get_scenario ''normal''
        (no_kwargs\<lparr>kw_temp_base := Some 40.04, kw_temp_variation := Some 0\<rparr>)
        (constant_draws (1 / 2)))"
  let ?v = "\<lparr>temperature = 40, humidity = 45, temp_status = ''normal'', hum_status = ''normal'',
           combined_status = ''normal'', modbus_error = None\<rparr>"
  have r: "get_value ?sc 1 Map.empty (12, 0) (constant_draws (1 / 2))
           = Inr (?v, ?sc, constant_draws (1 / 2))"
    by (simp add: eval_defs)
  have m: "modbus_error ?v = None" by simp
  have n: "\<not> forces_normal ?sc"
    by (simp add: eval_defs)
  from round_then_classify [OF r m] n
  have "temp_status ?v = calculate_status (temperature ?v)
              (limits_get Map.empty ''temp_min'' (- 10)) (limits_get Map.empty ''temp_max'' 40)
              (limits_get Map.empty ''temp_warning_delta'' 3)
              (limits_get Map.empty ''temp_alarm_delta'' 5)"
    by blast
  then have "''normal'' = calculate_status 40
              (limits_get Map.empty ''temp_min'' (- 10)) (limits_get Map.empty ''temp_max'' 40)
              (limits_get Map.empty ''temp_warning_delta'' 3)
              (limits_get Map.empty ''temp_alarm_delta'' 5)"
    by simp
  with r n show ?thesis by blast
qed



section \<open>The forced normal status\<close>

text \<open>
  C5. In \<open>TimeoutScenario\<close>, \<open>CRCErrorScenario\<close> and \<open>PowerOutageScenario\<close> a call that
  returns, returns a reading without fault code exactly when the fault draw does not
  trigger (for the power outage: when the power is on at the call and the outage draw
  does not trigger). On that branch the three statuses are normal, whatever the limits and
  the generated values are. The limits are never consulted: the call does the same for
  any two limits dictionaries. The call raises only on that branch, and exactly when the
  sensor id is too large to be converted to a \<^verbatim>\<open>float\<close>.
\<close>

theorem forced_normal_status:
  "(isl (TimeoutScenario_get_value st i lims g)
      \<longleftrightarrow> \<not> fst (random_random g) < timeout_rate st \<and> isl (int_to_float (i - 1))) \<and>
   (TimeoutScenario_get_value st i lims g = Inr (vt, st', gt) \<longrightarrow>
      (modbus_error vt = None \<longleftrightarrow> \<not> fst (random_random g) < timeout_rate st) \<and>
      (\<not> fst (random_random g) < timeout_rate st \<longrightarrow>
         temp_status vt = ''normal'' \<and> hum_status vt = ''normal'' \<and>
         combined_status vt = ''normal'')) \<and>
   TimeoutScenario_get_value st i lims g = TimeoutScenario_get_value st i lims' g \<and>
   (isl (CRCErrorScenario_get_value sc i lims g)
      \<longleftrightarrow> \<not> fst (random_random g) < crc_error_rate sc \<and> isl (int_to_float (i - 1))) \<and>
   (CRCErrorScenario_get_value sc i lims g = Inr (vc, sc', gc) \<longrightarrow>
      (modbus_error vc = None \<longleftrightarrow> \<not> fst (random_random g) < crc_error_rate sc) \<and>
      (\<not> fst (random_random g) < crc_error_rate sc \<longrightarrow>
         temp_status vc = ''normal'' \<and> hum_status vc = ''normal'' \<and>
         combined_status vc = ''normal'')) \<and>
   CRCErrorScenario_get_value sc i lims g = CRCErrorScenario_get_value sc i lims' g \<and>
   (isl (PowerOutageScenario_get_value sp i lims g)
      \<longleftrightarrow> \<not> power_off sp \<and> \<not> fst (random_random g) < outage_probability sp \<and>
          isl (int_to_float (i - 1))) \<and>
   (PowerOutageScenario_get_value sp i lims g = Inr (vp, sp', gp) \<longrightarrow>
      (modbus_error vp = None
         \<longleftrightarrow> \<not> power_off sp \<and> \<not> fst (random_random g) < outage_probability sp) \<and>
      (\<not> power_off sp \<and> \<not> fst (random_random g) < outage_probability sp \<longrightarrow>
         temp_status vp = ''normal'' \<and> hum_status vp = ''normal'' \<and>
         combined_status vp = ''normal'')) \<and>
   PowerOutageScenario_get_value sp i lims g = PowerOutageScenario_get_value sp i lims' g"
proof -
  have t1: "isl (TimeoutScenario_get_value st i lims g)
      \<longleftrightarrow> \<not> fst (random_random g) < timeout_rate st \<and> isl (int_to_float (i - 1))"
    by (simp add: TimeoutScenario_get_value_def rnd Let_def split: sum.splits)
  have t2: "TimeoutScenario_get_value st i lims g = Inr (vt, st', gt) \<longrightarrow>
      (modbus_error vt = None \<longleftrightarrow> \<not> fst (random_random g) < timeout_rate st) \<and>
      (\<not> fst (random_random g) < timeout_rate st \<longrightarrow>
         temp_status vt = ''normal'' \<and> hum_status vt = ''normal'' \<and>
         combined_status vt = ''normal'')"
    by (auto simp: TimeoutScenario_get_value_def rnd Let_def forced_normal_value_def
        offline_value_def split: sum.splits if_splits)
  have t3: "TimeoutScenario_get_value st i lims g = TimeoutScenario_get_value st i lims' g"
    by (simp add: TimeoutScenario_get_value_def)
  have c1: "isl (CRCErrorScenario_get_value sc i lims g)
      \<longleftrightarrow> \<not> fst (random_random g) < crc_error_rate sc \<and> isl (int_to_float (i - 1))"
    by (simp add: CRCErrorScenario_get_value_def rnd Let_def split: sum.splits)
  have c2: "CRCErrorScenario_get_value sc i lims g = Inr (vc, sc', gc) \<longrightarrow>
      (modbus_error vc = None \<longleftrightarrow> \<not> fst (random_random g) < crc_error_rate sc) \<and>
      (\<not> fst (random_random g) < crc_error_rate sc \<longrightarrow>
         temp_status vc = ''normal'' \<and> hum_status vc = ''normal'' \<and>
         combined_status vc = ''normal'')"
    by (auto simp: CRCErrorScenario_get_value_def rnd Let_def forced_normal_value_def
        offline_value_def split: sum.splits if_splits)
  have c3: "CRCErrorScenario_get_value sc i lims g = CRCErrorScenario_get_value sc i lims' g"
    by (simp add: CRCErrorScenario_get_value_def)
  have p1: "isl (PowerOutageScenario_get_value sp i lims g)
      \<longleftrightarrow> \<not> power_off sp \<and> \<not> fst (random_random g) < outage_probability sp \<and>
          isl (int_to_float (i - 1))"
    by (simp add: PowerOutageScenario_get_value_def rnd Let_def split: sum.splits)
  have p2: "PowerOutageScenario_get_value sp i lims g = Inr (vp, sp', gp) \<longrightarrow>
      (modbus_error vp = None
         \<longleftrightarrow> \<not> power_off sp \<and> \<not> fst (random_random g) < outage_probability sp) \<and>
      (\<not> power_off sp \<and> \<not> fst (random_random g) < outage_probability sp \<longrightarrow>
         temp_status vp = ''normal'' \<and> hum_status vp = ''normal'' \<and>
         combined_status vp = ''normal'')"
    by (auto simp: PowerOutageScenario_get_value_def rnd Let_def forced_normal_value_def
        offline_value_def split: sum.splits if_splits)
  have p3: "PowerOutageScenario_get_value sp i lims g = PowerOutageScenario_get_value sp i lims' g"
    by (simp add: PowerOutageScenario_get_value_def)
  show ?thesis
    by (intro conjI t1 t2 t3 c1 c2 c3 p1 p2 p3)
qed

theorem forced_normal_status_witness:
  "\<not> fst (random_random (constant_draws (1 / 2)))
       < timeout_rate (BaseScenario.extend (BaseScenario_init no_kwargs) (TimeoutScenario.fields 0.3)) \<and>
   \<not> fst (random_random (constant_draws (1 / 2)))
       < crc_error_rate (BaseScenario.extend (BaseScenario_init no_kwargs) (CRCErrorScenario.fields 0.15)) \<and>
   \<not> power_off (BaseScenario.extend (BaseScenario_init no_kwargs)
         (PowerOutageScenario.fields 0.05 False 0)) \<and>
   \<not> fst (random_random (constant_draws (1 / 2)))
       < outage_probability (BaseScenario.extend (BaseScenario_init no_kwargs)
           (PowerOutageScenario.fields 0.05 False 0)) \<and>
   TimeoutScenario_get_value
      (BaseScenario.extend (BaseScenario_init no_kwargs) (TimeoutScenario.fields 0.3))
      1 default_limits (constant_draws (1 / 2))
   = Inr (\<lparr>temperature = 22, humidity = 45, temp_status = ''normal'', hum_status = ''normal'',
           combined_status = ''normal'', modbus_error = None\<rparr>,
          BaseScenario.extend (BaseScenario_init no_kwargs) (TimeoutScenario.fields 0.3),
          constant_draws (1 / 2)) \<and>
   CRCErrorScenario_get_value
      (BaseScenario.extend (BaseScenario_init no_kwargs) (CRCErrorScenario.fields 0.15))
      1 default_limits (constant_draws (1 / 2))
   = Inr (\<lparr>temperature = 22, humidity = 45, temp_status = ''normal'', hum_status = ''normal'',
           combined_status = ''normal'', modbus_error = None\<rparr>,
          BaseScenario.extend (BaseScenario_init no_kwargs) (CRCErrorScenario.fields 0.15),
          constant_draws (1 / 2)) \<and>
   PowerOutageScenario_get_value
      (BaseScenario.extend (BaseScenario_init no_kwargs) (PowerOutageScenario.fields 0.05 False 0))
      1 default_limits (constant_draws (1 / 2))
   = Inr (\<lparr>temperature = 22, humidity = 45, temp_status = ''normal'', hum_status = ''normal'',
           combined_status = ''normal'', modbus_error = None\<rparr>,
          BaseScenario.extend (BaseScenario_init no_kwargs)
            (PowerOutageScenario.fields 0.05 False 0),
          constant_draws (1 / 2)) \<and>
   combined_status \<lparr>temperature = 22, humidity = 45, temp_status = ''normal'',
      hum_status = ''normal'', combined_status = ''normal'', modbus_error = None\<rparr> = ''normal''"
proof -
  let ?g = "constant_draws (1 / 2)"
  let ?st = "BaseScenario.extend (BaseScenario_init no_kwargs) (TimeoutScenario.fields 0.3)"
  let ?sc = "BaseScenario.extend (BaseScenario_init no_kwargs) (CRCErrorScenario.fields 0.15)"
  let ?sp = "BaseScenario.extend (BaseScenario_init no_kwargs)
               (PowerOutageScenario.fields 0.05 False 0)"
  let ?v = "\<lparr>temperature = 22, humidity = 45, temp_status = ''normal'', hum_status = ''normal'',
           combined_status = ''normal'', modbus_error = None\<rparr>"
  have a: "\<not> fst (random_random ?g) < timeout_rate ?st"
    by (simp add: eval_defs)
  have b: "\<not> fst (random_random ?g) < crc_error_rate ?sc"
    by (simp add: eval_defs)
  have c: "\<not> power_off ?sp" "\<not> fst (random_random ?g) < outage_probability ?sp"
    by (simp_all add: eval_defs)
  have rt: "TimeoutScenario_get_value ?st 1 default_limits ?g = Inr (?v, ?st, ?g)"
    by (simp add: eval_defs)
  have rc: "CRCErrorScenario_get_value ?sc 1 default_limits ?g = Inr (?v, ?sc, ?g)"
    by (simp add: eval_defs)
  have rp: "PowerOutageScenario_get_value ?sp 1 default_limits ?g = Inr (?v, ?sp, ?g)"
    by (simp add: eval_defs)
  from a rt
    forced_normal_status [where st = ?st and sc = ?sc and sp = ?sp and g = ?g and i = 1
      and lims = default_limits and lims' = default_limits and vt = ?v and st' = ?st
      and gt = ?g and vc = ?v and sc' = ?sc and gc = ?g and vp = ?v and sp' = ?sp and gp = ?g]
  have n: "combined_status ?v = ''normal''"
    by blast
  show ?thesis
    by (intro conjI a b c rt rc rp n)
qed



section \<open>The failed sensors\<close>

lemma SensorFailure_step:
  assumes "SensorFailureScenario_get_value s j lims g = Inr (v, s', g')"
  shows "failed_sensors s \<subseteq> failed_sensors s' \<and>
         (j \<in> failed_sensors s \<longrightarrow>
            v = offline_value ''sensor_failure'' \<or> (\<exists>t h. v = garbage_value t h))"
  using assms
  by (auto simp: SensorFailureScenario_get_value_def failure_update_def rnd Let_def
      split: if_splits sum.splits)

lemma SensorFailure_raise:
  assumes "SensorFailureScenario_get_value s j lims g = Inl (e, s', g')"
  shows "failed_sensors s' = failed_sensors s \<and> j \<notin> failed_sensors s"
  using assms
  by (auto simp: SensorFailureScenario_get_value_def failure_update_def rnd Let_def
      split: if_splits sum.splits)

text \<open>
  C6. In \<open>SensorFailureScenario\<close> the set of failed sensors only grows: through any
  sequence of calls, with any draws, no id leaves it, whether the calls return or raise.
  From a state in which a sensor id is failed, every later call for that id returns
  either the offline reading with the fault code \<open>sensor_failure\<close> or garbage data (the
  three statuses alarm, the fault code \<open>invalid_data\<close>), never a classified reading, and
  it does not raise.
\<close>

theorem sensor_failure_irreversible:
  assumes "i \<in> failed_sensors s"
    and "calls SensorFailureScenario_get_value s g cs = (rs, s', g')"
  shows "failed_sensors s \<subseteq> failed_sensors s' \<and> i \<in> failed_sensors s' \<and>
         length rs = length cs \<and>
         (\<forall>(c, r) \<in> set (zip cs rs).
            fst c = i \<longrightarrow>
              r = Inr (offline_value ''sensor_failure'') \<or> (\<exists>t h. r = Inr (garbage_value t h)))"
  using assms
proof (induction cs arbitrary: s g rs)
  case Nil
  then show ?case by auto
next
  case (Cons c cs)
  obtain j lims where c: "c = (j, lims)" by (cases c)
  show ?case
  proof (cases "SensorFailureScenario_get_value s j lims g")
    case (Inl a)
    obtain e s1 g1 where a: "a = (e, s1, g1)" by (cases a)
    note st = Inl [unfolded a]
    obtain ws where rest: "calls SensorFailureScenario_get_value s1 g1 cs = (ws, s', g')"
      and rs: "rs = Inl e # ws"
      using Cons.prems(2) c st by (auto split: prod.splits)
    note step = SensorFailure_raise [OF st]
    from step Cons.prems(1) have i1: "i \<in> failed_sensors s1" and ji: "j \<noteq> i" by auto
    note ih = Cons.IH [OF i1 rest]
    from step ih ji show ?thesis
      unfolding c rs by auto
  next
    case (Inr b)
    obtain v s1 g1 where b: "b = (v, s1, g1)" by (cases b)
    note st = Inr [unfolded b]
    obtain ws where rest: "calls SensorFailureScenario_get_value s1 g1 cs = (ws, s', g')"
      and rs: "rs = Inr v # ws"
      using Cons.prems(2) c st by (auto split: prod.splits)
    note step = SensorFailure_step [OF st]
    from step Cons.prems(1) have i1: "i \<in> failed_sensors s1" by blast
    note ih = Cons.IH [OF i1 rest]
    from step ih Cons.prems(1) show ?thesis
      unfolding c rs by auto
  qed
qed

theorem sensor_failure_irreversible_witness:
  "3 \<in> failed_sensors (BaseScenario.extend (BaseScenario_init no_kwargs)
            (SensorFailureScenario.fields 0.01 {3})) \<and>
   calls SensorFailureScenario_get_value
     (BaseScenario.extend (BaseScenario_init no_kwargs) (SensorFailureScenario.fields 0.01 {3}))
     (constant_draws (1 / 2)) [(3, Map.empty), (1, Map.empty), (3, Map.empty)]
   = ([Inr (garbage_value 22.5 50), Inr (classified_value 22 45 Map.empty),
       Inr (garbage_value 22.5 50)],
      BaseScenario.extend (BaseScenario_init no_kwargs) (SensorFailureScenario.fields 0.01 {3}),
      constant_draws (1 / 2)) \<and>
   ((Inr (garbage_value 22.5 50) :: py_error + SensorValue)
      = Inr (offline_value ''sensor_failure'') \<or>
    (\<exists>t h. (Inr (garbage_value 22.5 50) :: py_error + SensorValue) = Inr (garbage_value t h)))"
proof -
  let ?s = "BaseScenario.extend (BaseScenario_init no_kwargs)
              (SensorFailureScenario.fields 0.01 {3})"
  let ?g = "constant_draws (1 / 2)"
  note sf_eval = SensorFailureScenario_get_value_def failure_update_def rnd constant_draws_def
    no_kwargs_def BaseScenario_init_def arg_def BaseScenario.extend_def
    SensorFailureScenario.fields_def Let_def int_to_float_def
  have a: "3 \<in> failed_sensors ?s"
    by (simp add: sf_eval)
  have one: "SensorFailureScenario_get_value ?s 3 Map.empty ?g
             = Inr (garbage_value (py_round1 22.5) (py_round1 50), ?s, ?g)"
    by (simp add: sf_eval)
  have two: "SensorFailureScenario_get_value ?s 1 Map.empty ?g
             = Inr (classified_value (py_round1 (clamp 22 (- 40) 85)) (py_round1 (clamp 45 0 100))
                  Map.empty, ?s, ?g)"
    by (simp add: sf_eval)
  have r: "py_round1 22.5 = 22.5" "py_round1 50 = 50" "py_round1 (clamp 22 (- 40) 85) = 22"
    "py_round1 (clamp 45 0 100) = 45"
    by (simp_all add: py_round1_def round_half_even_def clamp_def)
  have b: "calls SensorFailureScenario_get_value ?s ?g
             [(3, Map.empty), (1, Map.empty), (3, Map.empty)]
           = ([Inr (garbage_value 22.5 50), Inr (classified_value 22 45 Map.empty),
               Inr (garbage_value 22.5 50)], ?s, ?g)"
    by (simp only: calls.simps one two r prod.case sum.case)
  note c = sensor_failure_irreversible [OF a b, THEN conjunct2, THEN conjunct2, THEN conjunct2]
  have d: "(Inr (garbage_value 22.5 50) :: py_error + SensorValue)
             = Inr (offline_value ''sensor_failure'') \<or>
           (\<exists>t h. (Inr (garbage_value 22.5 50) :: py_error + SensorValue)
                    = Inr (garbage_value t h))"
    using c by simp
  show ?thesis by (rule conjI [OF a conjI [OF b d]])
qed



section \<open>The garbage data of a failed sensor\<close>

lemma py_round1_fixed_points:
  "py_round1 (- 40) = - 40" "py_round1 85 = 85" "py_round1 0 = 0" "py_round1 100 = 100"
  by (simp_all add: py_round1_def round_half_even_def)

lemma garbage_range:
  assumes "0 \<le> u" "u \<le> 1"
  shows "- 40 \<le> py_round1 (- 40 + (85 - (- 40)) * u) \<and> py_round1 (- 40 + (85 - (- 40)) * u) \<le> 85"
    and "0 \<le> py_round1 (0 + (100 - 0) * u) \<and> py_round1 (0 + (100 - 0) * u) \<le> 100"
proof -
  have "- 40 \<le> - 40 + (85 - (- 40)) * u" "- 40 + (85 - (- 40)) * u \<le> 85"
    using assms by simp_all
  then show "- 40 \<le> py_round1 (- 40 + (85 - (- 40)) * u) \<and> py_round1 (- 40 + (85 - (- 40)) * u) \<le> 85"
    using py_round1_between [of "- 40" "- 40 + (85 - (- 40)) * u" 85] py_round1_fixed_points
    by simp
  have "0 \<le> 0 + (100 - 0) * u" "0 + (100 - 0) * u \<le> 100"
    using assms by simp_all
  then show "0 \<le> py_round1 (0 + (100 - 0) * u) \<and> py_round1 (0 + (100 - 0) * u) \<le> 100"
    using py_round1_between [of 0 "0 + (100 - 0) * u" 100] py_round1_fixed_points
    by simp
qed

text \<open>
  C10. When the sensor is failed after the failure draw and the next draw is not below
  one half, \<open>SensorFailureScenario.get_value\<close> returns a temperature
  \<open>uniform(-40, 85)\<close> and a humidity \<open>uniform(0, 100)\<close>, each rounded to one decimal,
  with the three statuses alarm and the fault code \<open>invalid_data\<close>. The bounds of the
  scenario and the limits of the caller play no part: the value is the same for any other
  bounds and limits. The call does not raise. For unit draws the temperature lies in \<open>[-40, 85]\<close> and the humidity
  in \<open>[0, 100]\<close>, so the values can lie inside the normal band of the caller while the
  status is alarm (22.5 and 50.0 under the default limits).
\<close>

theorem garbage_data_branch:
  assumes "failure_update s i g = (s1, g1)"
    and "i \<in> failed_sensors s1"
    and "\<not> g1 0 < 0.5"
  shows "SensorFailureScenario_get_value s i lims g =
           Inr (\<lparr>temperature = py_round1 (- 40 + (85 - (- 40)) * g1 1),
             humidity = py_round1 (0 + (100 - 0) * g1 2),
             temp_status = ''alarm'', hum_status = ''alarm'', combined_status = ''alarm'',
             modbus_error = Some ''invalid_data''\<rparr>, s1, \<lambda>n. g1 (n + 3)) \<and>
         map_sum fst fst (SensorFailureScenario_get_value
                (s\<lparr>temp_min := tmin, temp_max := tmax, hum_min := hmin, hum_max := hmax\<rparr>)
                i lims' g)
           = map_sum fst fst (SensorFailureScenario_get_value s i lims g) \<and>
         (0 \<le> g1 1 \<and> g1 1 \<le> 1 \<longrightarrow>
            - 40 \<le> temperature (fst (projr (SensorFailureScenario_get_value s i lims g))) \<and>
            temperature (fst (projr (SensorFailureScenario_get_value s i lims g))) \<le> 85) \<and>
         (0 \<le> g1 2 \<and> g1 2 \<le> 1 \<longrightarrow>
            0 \<le> humidity (fst (projr (SensorFailureScenario_get_value s i lims g))) \<and>
            humidity (fst (projr (SensorFailureScenario_get_value s i lims g))) \<le> 100)"
proof -
  have v: "SensorFailureScenario_get_value s i lims g =
           Inr (\<lparr>temperature = py_round1 (- 40 + (85 - (- 40)) * g1 1),
             humidity = py_round1 (0 + (100 - 0) * g1 2),
             temp_status = ''alarm'', hum_status = ''alarm'', combined_status = ''alarm'',
             modbus_error = Some ''invalid_data''\<rparr>, s1, \<lambda>n. g1 (n + 3))"
    using assms
    by (simp add: SensorFailureScenario_get_value_def rnd garbage_value_def eval_nat_numeral)
  have u: "failure_update
             (s\<lparr>temp_min := tmin, temp_max := tmax, hum_min := hmin, hum_max := hmax\<rparr>) i g
           = (s1\<lparr>temp_min := tmin, temp_max := tmax, hum_min := hmin, hum_max := hmax\<rparr>, g1)"
    using assms(1) by (auto simp: failure_update_def rnd split: if_splits)
  have w: "map_sum fst fst (SensorFailureScenario_get_value
                (s\<lparr>temp_min := tmin, temp_max := tmax, hum_min := hmin, hum_max := hmax\<rparr>)
                i lims' g)
           = map_sum fst fst (SensorFailureScenario_get_value s i lims g)"
    using assms(2,3) u
    by (simp add: v) (simp add: SensorFailureScenario_get_value_def rnd garbage_value_def
        eval_nat_numeral)
  show ?thesis
    using v w garbage_range [of "g1 1"] garbage_range [of "g1 2"] by simp
qed

theorem garbage_data_branch_witness:
  "failure_update
     (BaseScenario.extend (BaseScenario_init no_kwargs) (SensorFailureScenario.fields 0.01 {3}))
     3 (constant_draws (1 / 2))
   = (BaseScenario.extend (BaseScenario_init no_kwargs) (SensorFailureScenario.fields 0.01 {3}),
      constant_draws (1 / 2)) \<and>
   3 \<in> failed_sensors
     (BaseScenario.extend (BaseScenario_init no_kwargs) (SensorFailureScenario.fields 0.01 {3})) \<and>
   \<not> constant_draws (1 / 2) 0 < 0.5 \<and>
   0 \<le> constant_draws (1 / 2) 1 \<and> constant_draws (1 / 2) 1 \<le> 1 \<and>
   0 \<le> constant_draws (1 / 2) 2 \<and> constant_draws (1 / 2) 2 \<le> 1 \<and>
   map_sum fst fst (SensorFailureScenario_get_value
     (BaseScenario.extend (BaseScenario_init no_kwargs) (SensorFailureScenario.fields 0.01 {3}))
     3 default_limits (constant_draws (1 / 2)))
   = Inr \<lparr>temperature = 22.5, humidity = 50, temp_status = ''alarm'', hum_status = ''alarm'',
      combined_status = ''alarm'', modbus_error = Some ''invalid_data''\<rparr> \<and>
   calculate_status 22.5 (- 10) 40 3 5 = ''normal'' \<and>
   calculate_status 50 20 80 5 10 = ''normal''"
proof -
  let ?s = "BaseScenario.extend (BaseScenario_init no_kwargs)
              (SensorFailureScenario.fields 0.01 {3})"
  let ?g = "constant_draws (1 / 2)"
  note sf_eval = failure_update_def rnd constant_draws_def
    no_kwargs_def BaseScenario_init_def arg_def BaseScenario.extend_def
    SensorFailureScenario.fields_def
  have fu: "failure_update ?s 3 ?g = (?s, ?g)"
    by (simp add: sf_eval)
  have m: "3 \<in> failed_sensors ?s"
    by (simp add: sf_eval)
  have nb: "\<not> ?g 0 < 0.5"
    by (simp add: constant_draws_def)
  have d: "0 \<le> ?g 1 \<and> ?g 1 \<le> 1 \<and> 0 \<le> ?g 2 \<and> ?g 2 \<le> 1"
    by (simp add: constant_draws_def)
  have "map_sum fst fst (SensorFailureScenario_get_value ?s 3 default_limits ?g)
        = Inr \<lparr>temperature = py_round1 (- 40 + (85 - (- 40)) * ?g 1),
           humidity = py_round1 (0 + (100 - 0) * ?g 2),
           temp_status = ''alarm'', hum_status = ''alarm'', combined_status = ''alarm'',
           modbus_error = Some ''invalid_data''\<rparr>"
    using garbage_data_branch [OF fu m nb, of default_limits] by simp
  then have k: "map_sum fst fst (SensorFailureScenario_get_value ?s 3 default_limits ?g)
        = Inr \<lparr>temperature = 22.5, humidity = 50, temp_status = ''alarm'', hum_status = ''alarm'',
           combined_status = ''alarm'', modbus_error = Some ''invalid_data''\<rparr>"
    by (simp add: constant_draws_def py_round1_def round_half_even_def)
  have c: "calculate_status 22.5 (- 10) 40 3 5 = ''normal''"
    "calculate_status 50 20 80 5 10 = ''normal''"
    by (simp_all add: calculate_status_def)
  show ?thesis
    using d by (intro conjI fu m nb k c) simp_all
qed



section \<open>Rounding to binary64\<close>

lemma binade_eq:
  assumes "2 powi e \<le> \<bar>x\<bar>" "\<bar>x\<bar> < 2 powi (e + 1)"
  shows "binade x = e"
proof -
  have p: "0 < \<bar>x\<bar>"
    by (rule less_le_trans [OF _ assms(1)]) simp
  have "log 2 (2 powi e) \<le> log 2 \<bar>x\<bar>" using assms(1) p by (simp add: log_le_cancel_iff)
  moreover have "log 2 \<bar>x\<bar> < log 2 (2 powi (e + 1))"
    using assms(2) p by (simp add: log_less_cancel_iff)
  moreover have "log 2 (2 powi k) = of_int k" for k :: int
    by (simp add: powr_real_of_int' [symmetric])
  ultimately show ?thesis unfolding binade_def by (simp add: floor_unique)
qed

lemma fl_eval:
  assumes "2 powi e \<le> \<bar>x\<bar>" "\<bar>x\<bar> < 2 powi (e + 1)" "- 1022 \<le> e"
  shows "fl x = of_int (round_half_even (x / 2 powi (e - 52))) * 2 powi (e - 52)"
  using binade_eq [OF assms(1,2)] assms(3) by (simp add: fl_def ulp_def max_def)

lemma fl_evalI:
  assumes "2 powi e \<le> \<bar>x\<bar>" "\<bar>x\<bar> < 2 powi (e + 1)" "- 1022 \<le> e"
    and "of_int (round_half_even (x / 2 powi (e - 52))) * 2 powi (e - 52) = y"
  shows "fl x = y"
  using fl_eval [OF assms(1-3)] assms(4) by simp

lemma fl_0: "fl 0 = 0"
  by (simp add: fl_def round_half_even_def)

text \<open>Rounding is monotone and leaves a binary64 number as it is.\<close>

lemma round_half_even_mono: "x \<le> y \<Longrightarrow> round_half_even x \<le> round_half_even y"
proof -
  assume xy: "x \<le> y"
  then have f: "\<lfloor>x\<rfloor> \<le> \<lfloor>y\<rfloor>" by (rule floor_mono)
  show ?thesis
  proof (cases "\<lfloor>x\<rfloor> = \<lfloor>y\<rfloor>")
    case True
    then show ?thesis using xy by (auto simp: round_half_even_def Let_def)
  next
    case False
    with f have "\<lfloor>x\<rfloor> + 1 \<le> \<lfloor>y\<rfloor>" by simp
    moreover have "round_half_even x \<le> \<lfloor>x\<rfloor> + 1" by (simp add: round_half_even_def Let_def)
    moreover have "\<lfloor>y\<rfloor> \<le> round_half_even y" by (simp add: round_half_even_def Let_def)
    ultimately show ?thesis by linarith
  qed
qed

lemma binade_bounds:
  assumes "x \<noteq> 0"
  shows "2 powi (binade x) \<le> \<bar>x\<bar>" "\<bar>x\<bar> < 2 powi (binade x + 1)"
proof -
  have p: "0 < \<bar>x\<bar>" using assms by simp
  have e: "2 powr (log 2 \<bar>x\<bar>) = \<bar>x\<bar>" using p by simp
  have "2 powr (of_int (binade x)) \<le> 2 powr (log 2 \<bar>x\<bar>)"
    unfolding binade_def by (simp only: powr_le_cancel_iff) simp
  then show "2 powi (binade x) \<le> \<bar>x\<bar>" using e by (simp add: powr_real_of_int')
  have "2 powr (log 2 \<bar>x\<bar>) < 2 powr (of_int (binade x + 1))"
    unfolding binade_def by (simp only: powr_less_cancel_iff) simp
  then have "\<bar>x\<bar> < 2 powr (of_int (binade x + 1))" using e by simp
  moreover have "2 powr (of_int (binade x + 1)) = (2 :: real) powi (binade x + 1)"
    by (rule powr_real_of_int') simp_all
  ultimately show "\<bar>x\<bar> < 2 powi (binade x + 1)" by simp
qed

lemma ulp_pos: "0 < ulp x"
  by (simp add: ulp_def)

lemma fl_nonneg: "0 \<le> x \<Longrightarrow> 0 \<le> fl x"
proof -
  assume "0 \<le> x"
  then have "of_int 0 \<le> x / ulp x" using ulp_pos [of x] by simp
  then have "0 \<le> round_half_even (x / ulp x)" by (rule round_half_even_ge)
  then show ?thesis using ulp_pos [of x] by (simp add: fl_def)
qed

lemma round_half_even_minus: "round_half_even (- t) = - round_half_even t"
proof (cases "t = of_int \<lfloor>t\<rfloor>")
  case True
  then have "round_half_even t = \<lfloor>t\<rfloor>"
    by (metis round_half_even_of_int)
  moreover have "- t = of_int (- \<lfloor>t\<rfloor>)" using True by simp
  then have "round_half_even (- t) = - \<lfloor>t\<rfloor>"
    by (metis round_half_even_of_int)
  ultimately show ?thesis by simp
next
  case False
  then have c: "\<lceil>t\<rceil> = \<lfloor>t\<rfloor> + 1" by (simp add: ceiling_altdef)
  have f: "\<lfloor>- t\<rfloor> = - \<lfloor>t\<rfloor> - 1" using c by (simp add: floor_minus)
  have p: "0 < t - of_int \<lfloor>t\<rfloor>" using False
    by (metis diff_gt_0_iff_gt of_int_floor_le order_le_less)
  show ?thesis
    unfolding round_half_even_def Let_def f using p by auto
qed

lemma binade_minus: "binade (- x) = binade x"
  by (simp add: binade_def)

lemma ulp_minus: "ulp (- x) = ulp x"
  by (simp add: ulp_def binade_minus)

lemma fl_minus: "fl (- x) = - fl x"
  by (simp add: fl_def ulp_minus round_half_even_minus)

lemma powi_ratio_53: "(2 :: real) powi (m + 1) / 2 powi (m - 52) = of_int (2 ^ 53)"
proof -
  have "(2 :: real) powi (m + 1) / 2 powi (m - 52) = 2 powi ((m + 1) - (m - 52))"
    by (rule power_int_diff [symmetric]) simp
  also have "\<dots> = 2 powi 53" by simp
  finally show ?thesis by simp
qed

lemma powi_ratio_52: "(2 :: real) powi m / 2 powi (m - 52) = of_int (2 ^ 52)"
proof -
  have "(2 :: real) powi m / 2 powi (m - 52) = 2 powi (m - (m - 52))"
    by (rule power_int_diff [symmetric]) simp
  also have "\<dots> = 2 powi 52" by simp
  finally show ?thesis by simp
qed

lemma powi_times_53: "of_int (2 ^ 53) * (2 :: real) powi (m - 52) = 2 powi (m + 1)"
  using powi_ratio_53 [of m] by (simp add: field_simps)

lemma powi_times_52: "of_int (2 ^ 52) * (2 :: real) powi (m - 52) = 2 powi m"
  using powi_ratio_52 [of m] by (simp add: field_simps)

lemma fl_upper:
  assumes "0 < x"
  shows "round_half_even (x / ulp x) \<le> 2 ^ 53"
    and "fl x \<le> 2 powi (max (binade x) (- 1022) + 1)"
proof -
  let ?m = "max (binade x) (- 1022)"
  have "x < 2 powi (binade x + 1)" using binade_bounds(2) [of x] assms by simp
  also have "\<dots> \<le> 2 powi (?m + 1)" by (rule power_int_increasing) simp_all
  finally have "x / ulp x < 2 powi (?m + 1) / ulp x"
    using ulp_pos [of x] by (simp add: divide_strict_right_mono)
  then have "x / ulp x \<le> of_int (2 ^ 53)"
    unfolding ulp_def powi_ratio_53 by simp
  then show k: "round_half_even (x / ulp x) \<le> 2 ^ 53" by (rule round_half_even_le)
  then have "of_int (round_half_even (x / ulp x)) \<le> (of_int (2 ^ 53) :: real)"
    by (simp only: of_int_le_iff)
  then have "fl x \<le> of_int (2 ^ 53) * ulp x"
    unfolding fl_def using ulp_pos [of x] by (simp only: mult_right_mono less_imp_le)
  then show "fl x \<le> 2 powi (?m + 1)"
    unfolding ulp_def powi_times_53 .
qed

lemma fl_lower:
  assumes "0 < x" "- 1022 \<le> binade x"
  shows "2 ^ 52 \<le> round_half_even (x / ulp x)"
    and "2 powi (binade x) \<le> fl x"
proof -
  have u: "ulp x = 2 powi (binade x - 52)" using assms(2) by (simp add: ulp_def max_def)
  have "2 powi (binade x) \<le> x" using binade_bounds(1) [of x] assms by simp
  then have "2 powi (binade x) / ulp x \<le> x / ulp x"
    using ulp_pos [of x] by (simp add: divide_right_mono)
  then have "of_int (2 ^ 52) \<le> x / ulp x"
    unfolding u powi_ratio_52 .
  then show k: "2 ^ 52 \<le> round_half_even (x / ulp x)" by (rule round_half_even_ge)
  then have "(of_int (2 ^ 52) :: real) \<le> of_int (round_half_even (x / ulp x))"
    by (simp only: of_int_le_iff)
  then have "of_int (2 ^ 52) * ulp x \<le> fl x"
    unfolding fl_def using ulp_pos [of x] by (simp only: mult_right_mono less_imp_le)
  then show "2 powi (binade x) \<le> fl x"
    unfolding u powi_times_52 .
qed

lemma binade_mono:
  assumes "0 < x" "x \<le> y"
  shows "binade x \<le> binade y"
proof -
  have "log 2 x \<le> log 2 y" using assms by (simp add: log_le_cancel_iff)
  then show ?thesis using assms unfolding binade_def by (simp add: floor_mono)
qed

lemma fl_mono_pos:
  assumes "0 < x" "x \<le> y"
  shows "fl x \<le> fl y"
proof -
  let ?mx = "max (binade x) (- 1022)" and ?my = "max (binade y) (- 1022)"
  have y: "0 < y" using assms by simp
  have b: "binade x \<le> binade y" using assms by (rule binade_mono)
  show ?thesis
  proof (cases "?mx = ?my")
    case True
    then have u: "ulp x = ulp y" by (simp add: ulp_def)
    have "x / ulp y \<le> y / ulp y" using assms(2) ulp_pos [of y] by (simp add: divide_right_mono)
    then have "round_half_even (x / ulp y) \<le> round_half_even (y / ulp y)"
      by (rule round_half_even_mono)
    then show ?thesis unfolding fl_def u using ulp_pos [of y] by (simp add: mult_right_mono)
  next
    case False
    with b have lt: "?mx < ?my" by linarith
    then have bq: "- 1022 \<le> binade y" "?my = binade y" by linarith+
    have "fl x \<le> 2 powi (?mx + 1)" using fl_upper(2) [OF assms(1)] .
    also have "\<dots> \<le> 2 powi (binade y)"
    proof (rule power_int_increasing)
      show "?mx + 1 \<le> binade y" using lt bq by linarith
    qed simp
    also have "\<dots> \<le> fl y" using fl_lower(2) [OF y bq(1)] .
    finally show ?thesis .
  qed
qed

lemma fl_mono:
  assumes "x \<le> y"
  shows "fl x \<le> fl y"
proof -
  consider "0 < x" | "x \<le> 0" "0 \<le> y" | "y < 0" by linarith
  then show ?thesis
  proof cases
    case 1
    then show ?thesis using assms by (rule fl_mono_pos)
  next
    case 2
    have "fl (- x) \<ge> 0" using 2(1) by (simp add: fl_nonneg)
    then have "fl x \<le> 0" by (simp add: fl_minus)
    also have "0 \<le> fl y" using 2(2) by (rule fl_nonneg)
    finally show ?thesis .
  next
    case 3
    then have "0 < - y" "- y \<le> - x" using assms by simp_all
    then have "fl (- y) \<le> fl (- x)" by (rule fl_mono_pos)
    then show ?thesis by (simp add: fl_minus)
  qed
qed

lemma fl_fl_pos:
  assumes "0 < x"
  shows "fl (fl x) = fl x"
proof -
  let ?m = "max (binade x) (- 1022)"
  let ?k = "round_half_even (x / ulp x)"
  have u: "ulp x = 2 powi (?m - 52)" by (simp add: ulp_def)
  have f: "fl x = of_int ?k * ulp x" by (simp add: fl_def)
  have "of_int 0 \<le> x / ulp x" using assms ulp_pos [of x] by simp
  then have k0: "0 \<le> ?k" by (rule round_half_even_ge)
  have k1: "?k \<le> 2 ^ 53" using fl_upper(1) [OF assms] .
  consider "?k = 0" | "?k = 2 ^ 53" | "0 < ?k" "?k < 2 ^ 53" using k0 k1 by linarith
  then show ?thesis
  proof cases
    case 1
    then have "fl x = 0" by (simp add: f)
    then show ?thesis by (simp add: fl_0)
  next
    case 2
    have "fl x = of_int (2 ^ 53) * ulp x" by (simp only: f 2)
    also have "\<dots> = of_int (2 ^ 53) * 2 powi (?m - 52)" by (simp only: u)
    also have "\<dots> = 2 powi (?m + 1)" by (rule powi_times_53)
    finally have v: "fl x = 2 powi (?m + 1)" .
    have "binade (fl x) = ?m + 1"
    proof (rule binade_eq)
      show "2 powi (?m + 1) \<le> \<bar>fl x\<bar>" by (simp add: v)
      have "(2 :: real) powi (?m + 1) < 2 powi (?m + 1 + 1)"
        by (rule power_int_strict_increasing) simp_all
      then show "\<bar>fl x\<bar> < 2 powi (?m + 1 + 1)" by (simp add: v)
    qed
    then have w: "ulp (fl x) = 2 powi (?m + 1 - 52)"
      by (simp add: ulp_def)
    have q: "fl x / ulp (fl x) = of_int (2 ^ 52)"
      unfolding w unfolding v by (rule powi_ratio_52)
    have "fl (fl x) = of_int (round_half_even (fl x / ulp (fl x))) * ulp (fl x)"
      by (simp add: fl_def)
    also have "\<dots> = of_int (2 ^ 52) * ulp (fl x)"
      by (simp only: q round_half_even_of_int)
    also have "\<dots> = of_int (2 ^ 52) * 2 powi (?m + 1 - 52)"
      by (simp only: w)
    also have "\<dots> = 2 powi (?m + 1)"
      by (rule powi_times_52)
    also have "\<dots> = fl x"
      by (simp only: v)
    finally show ?thesis .
  next
    case 3
    have ne: "fl x \<noteq> 0" using 3(1) ulp_pos [of x] by (simp add: f)
    have pos: "0 < fl x" using 3(1) ulp_pos [of x] by (simp add: f)
    have "of_int ?k < (of_int (2 ^ 53) :: real)" using 3(2) by (simp only: of_int_less_iff)
    then have "fl x < of_int (2 ^ 53) * ulp x"
      unfolding f using ulp_pos [of x] by (simp only: mult_strict_right_mono)
    then have up: "fl x < 2 powi (?m + 1)"
      unfolding u powi_times_53 .
    have le: "binade (fl x) \<le> ?m"
    proof (rule ccontr)
      assume "\<not> binade (fl x) \<le> ?m"
      then have "?m + 1 \<le> binade (fl x)" by simp
      then have "(2 :: real) powi (?m + 1) \<le> 2 powi (binade (fl x))"
        by (rule power_int_increasing) simp
      also have "\<dots> \<le> fl x" using binade_bounds(1) [OF ne] pos by simp
      finally show False using up by simp
    qed
    have "max (binade (fl x)) (- 1022) = ?m"
    proof (cases "- 1022 \<le> binade x")
      case True
      then have m: "?m = binade x" by simp
      have "2 powi (binade x) \<le> fl x" using fl_lower(2) [OF assms True] .
      then have "binade (fl x) = binade x"
        using up pos unfolding m by (intro binade_eq) simp_all
      then show ?thesis by simp
    next
      case False
      then show ?thesis using le by simp
    qed
    then have w: "ulp (fl x) = ulp x" by (simp add: ulp_def)
    have "fl x / ulp x = of_int ?k" using ulp_pos [of x] by (simp add: f)
    then have "fl (fl x) = of_int (round_half_even (of_int ?k)) * ulp x"
      by (simp add: fl_def [of "fl x"] w)
    then show ?thesis by (simp add: round_half_even_of_int f)
  qed
qed

lemma fl_fl: "fl (fl x) = fl x"
proof -
  consider "0 < x" | "x = 0" | "0 < - x" by linarith
  then show ?thesis
  proof cases
    case 1
    then show ?thesis by (rule fl_fl_pos)
  next
    case 2
    then show ?thesis by (simp add: fl_0)
  next
    case 3
    from fl_fl_pos [OF this] show ?thesis by (simp add: fl_minus)
  qed
qed

text \<open>The roundings met in the first calls of a new drift scenario.\<close>

lemma fl_values:
  shows "fl (3 / 10) = 5404319552844595 / 18014398509481984"
    and "fl (1 / 10) = 3602879701896397 / 36028797018963968"
    and "fl (3602879701896397 / 36028797018963968) = 3602879701896397 / 36028797018963968"
    and "fl (22) = 22"
    and "fl (796236414119103693 / 36028797018963968) = 3110298492652749 / 140737488355328"
    and "fl (- 2) = - 2"
    and "fl (1 / 2) = 1 / 2"
    and "fl (- 1) = - 1"
    and "fl (2) = 2"
    and "fl (1) = 1"
    and "fl (3110298492652749 / 140737488355328) = 3110298492652749 / 140737488355328"
    and "fl (3602879701896397 / 72057594037927936) = 3602879701896397 / 72057594037927936"
    and "fl (45) = 45"
    and "fl (3238988852004860723 / 72057594037927936) = 3163075050785997 / 70368744177664"
    and "fl (3163075050785997 / 70368744177664) = 3163075050785997 / 70368744177664"
    and "fl (3602879701896397 / 18014398509481984) = 3602879701896397 / 18014398509481984"
    and "fl (10808639105689191 / 36028797018963968) = 1351079888211149 / 4503599627370496"
    and "fl (1351079888211149 / 4503599627370496) = 1351079888211149 / 4503599627370496"
    and "fl (14411518807585589 / 36028797018963968) = 3602879701896397 / 9007199254740992"
    and "fl (3602879701896397 / 9007199254740992) = 3602879701896397 / 9007199254740992"
    and "fl (18014398509481985 / 36028797018963968) = 1 / 2"
    and "fl (21617278211378381 / 36028797018963968) = 5404319552844595 / 9007199254740992"
    and "fl (5404319552844595 / 9007199254740992) = 5404319552844595 / 9007199254740992"
    and "fl (25220157913274777 / 36028797018963968) = 3152519739159347 / 4503599627370496"
    and "fl (3152519739159347 / 4503599627370496) = 3152519739159347 / 4503599627370496"
    and "fl (28823037615171173 / 36028797018963968) = 7205759403792793 / 9007199254740992"
    and "fl (8) = 8"
    and "fl (3602879701896397 / 4503599627370496) = 3602879701896397 / 4503599627370496"
proof -
  show "fl (3 / 10) = 5404319552844595 / 18014398509481984"
    by (rule fl_evalI [where e = "- 2"]) (simp_all add: round_half_even_def power_int_minus)
  show "fl (1 / 10) = 3602879701896397 / 36028797018963968"
    by (rule fl_evalI [where e = "- 4"]) (simp_all add: round_half_even_def power_int_minus)
  show "fl (3602879701896397 / 36028797018963968) = 3602879701896397 / 36028797018963968"
    by (rule fl_evalI [where e = "- 4"]) (simp_all add: round_half_even_def power_int_minus)
  show "fl (22) = 22"
    by (rule fl_evalI [where e = "4"]) (simp_all add: round_half_even_def power_int_minus)
  show "fl (796236414119103693 / 36028797018963968) = 3110298492652749 / 140737488355328"
    by (rule fl_evalI [where e = "4"]) (simp_all add: round_half_even_def power_int_minus)
  show "fl (- 2) = - 2"
    by (rule fl_evalI [where e = "1"]) (simp_all add: round_half_even_def power_int_minus)
  show "fl (1 / 2) = 1 / 2"
    by (rule fl_evalI [where e = "- 1"]) (simp_all add: round_half_even_def power_int_minus)
  show "fl (- 1) = - 1"
    by (rule fl_evalI [where e = "0"]) (simp_all add: round_half_even_def power_int_minus)
  show "fl (2) = 2"
    by (rule fl_evalI [where e = "1"]) (simp_all add: round_half_even_def power_int_minus)
  show "fl (1) = 1"
    by (rule fl_evalI [where e = "0"]) (simp_all add: round_half_even_def power_int_minus)
  show "fl (3110298492652749 / 140737488355328) = 3110298492652749 / 140737488355328"
    by (rule fl_evalI [where e = "4"]) (simp_all add: round_half_even_def power_int_minus)
  show "fl (3602879701896397 / 72057594037927936) = 3602879701896397 / 72057594037927936"
    by (rule fl_evalI [where e = "- 5"]) (simp_all add: round_half_even_def power_int_minus)
  show "fl (45) = 45"
    by (rule fl_evalI [where e = "5"]) (simp_all add: round_half_even_def power_int_minus)
  show "fl (3238988852004860723 / 72057594037927936) = 3163075050785997 / 70368744177664"
    by (rule fl_evalI [where e = "5"]) (simp_all add: round_half_even_def power_int_minus)
  show "fl (3163075050785997 / 70368744177664) = 3163075050785997 / 70368744177664"
    by (rule fl_evalI [where e = "5"]) (simp_all add: round_half_even_def power_int_minus)
  show "fl (3602879701896397 / 18014398509481984) = 3602879701896397 / 18014398509481984"
    by (rule fl_evalI [where e = "- 3"]) (simp_all add: round_half_even_def power_int_minus)
  show "fl (10808639105689191 / 36028797018963968) = 1351079888211149 / 4503599627370496"
    by (rule fl_evalI [where e = "- 2"]) (simp_all add: round_half_even_def power_int_minus)
  show "fl (1351079888211149 / 4503599627370496) = 1351079888211149 / 4503599627370496"
    by (rule fl_evalI [where e = "- 2"]) (simp_all add: round_half_even_def power_int_minus)
  show "fl (14411518807585589 / 36028797018963968) = 3602879701896397 / 9007199254740992"
    by (rule fl_evalI [where e = "- 2"]) (simp_all add: round_half_even_def power_int_minus)
  show "fl (3602879701896397 / 9007199254740992) = 3602879701896397 / 9007199254740992"
    by (rule fl_evalI [where e = "- 2"]) (simp_all add: round_half_even_def power_int_minus)
  show "fl (18014398509481985 / 36028797018963968) = 1 / 2"
    by (rule fl_evalI [where e = "- 1"]) (simp_all add: round_half_even_def power_int_minus)
  show "fl (21617278211378381 / 36028797018963968) = 5404319552844595 / 9007199254740992"
    by (rule fl_evalI [where e = "- 1"]) (simp_all add: round_half_even_def power_int_minus)
  show "fl (5404319552844595 / 9007199254740992) = 5404319552844595 / 9007199254740992"
    by (rule fl_evalI [where e = "- 1"]) (simp_all add: round_half_even_def power_int_minus)
  show "fl (25220157913274777 / 36028797018963968) = 3152519739159347 / 4503599627370496"
    by (rule fl_evalI [where e = "- 1"]) (simp_all add: round_half_even_def power_int_minus)
  show "fl (3152519739159347 / 4503599627370496) = 3152519739159347 / 4503599627370496"
    by (rule fl_evalI [where e = "- 1"]) (simp_all add: round_half_even_def power_int_minus)
  show "fl (28823037615171173 / 36028797018963968) = 7205759403792793 / 9007199254740992"
    by (rule fl_evalI [where e = "- 1"]) (simp_all add: round_half_even_def power_int_minus)
  show "fl (8) = 8"
    by (rule fl_evalI [where e = "3"]) (simp_all add: round_half_even_def power_int_minus)
  show "fl (3602879701896397 / 4503599627370496) = 3602879701896397 / 4503599627370496"
    by (rule fl_evalI [where e = "- 1"]) (simp_all add: round_half_even_def power_int_minus)
qed

lemmas fl_ops = fadd_def fsub_def fmul_def fl_0 fl_values

section \<open>The drift offset\<close>

lemma DriftUp_returns:
  assumes "int_to_float (i - 1) = Inr n"
  shows "DriftUpScenario_get_value s i lims g =
     Inr (classified_value
        (py_round1 (clamp
           (fadd (fadd (fadd (temp_base s) (fmul n 0.3))
                    (fadd (DriftUpScenario.current_offset s) (DriftUpScenario.drift_rate s)))
              (fst (random_uniform (fmul (- temp_variation s) 0.5)
                      (fmul (temp_variation s) 0.5) g)))
           (temp_min s) (temp_max s)))
        (py_round1 (clamp
           (fadd (fsub (hum_base s)
                    (fmul (fadd (DriftUpScenario.current_offset s) (DriftUpScenario.drift_rate s))
                       0.5))
              (fst (random_uniform (- hum_variation s) (hum_variation s)
                      (snd (random_uniform (fmul (- temp_variation s) 0.5)
                              (fmul (temp_variation s) 0.5) g)))))
           (hum_min s) (hum_max s)))
        lims,
      s\<lparr>DriftUpScenario.current_offset :=
           fadd (DriftUpScenario.current_offset s) (DriftUpScenario.drift_rate s)\<rparr>,
      snd (random_uniform (- hum_variation s) (hum_variation s)
             (snd (random_uniform (fmul (- temp_variation s) 0.5)
                     (fmul (temp_variation s) 0.5) g))))"
  using assms by (simp add: DriftUpScenario_get_value_def Let_def rnd)

lemma DriftUp_raises:
  assumes "int_to_float (i - 1) = Inl e"
  shows "DriftUpScenario_get_value s i lims g = Inl (e, s, g)"
  using assms by (simp add: DriftUpScenario_get_value_def)

lemma drifted_front: "drifted (fadd a r) r n = drifted a r (Suc n)"
  by (induction n) simp_all

lemma DriftUp_calls_offset:
  "calls DriftUpScenario_get_value s g cs = (rs, s', g') \<Longrightarrow>
   DriftUpScenario.current_offset s' =
     drifted (DriftUpScenario.current_offset s) (DriftUpScenario.drift_rate s) (returning cs) \<and>
   DriftUpScenario.drift_rate s' = DriftUpScenario.drift_rate s"
proof (induction cs arbitrary: s g rs)
  case Nil
  then show ?case by (simp add: returning_def)
next
  case (Cons c cs)
  obtain i lims where c: "c = (i, lims)" by (cases c)
  show ?case
  proof (cases "int_to_float (i - 1)")
    case (Inl e)
    note st = DriftUp_raises [OF Inl, of s lims g]
    obtain ws where rest: "calls DriftUpScenario_get_value s g cs = (ws, s', g')"
      using Cons.prems c st by (auto split: prod.splits)
    have "returning (c # cs) = returning cs"
      using Inl by (simp add: returning_def c)
    with Cons.IH [OF rest] show ?thesis by simp
  next
    case (Inr n)
    note st = DriftUp_returns [OF Inr, of s lims g]
    let ?s1 = "s\<lparr>DriftUpScenario.current_offset :=
                   fadd (DriftUpScenario.current_offset s) (DriftUpScenario.drift_rate s)\<rparr>"
    obtain ws g1 where rest: "calls DriftUpScenario_get_value ?s1 g1 cs = (ws, s', g')"
      using Cons.prems c st by (auto split: prod.splits)
    have "returning (c # cs) = Suc (returning cs)"
      using Inr by (simp add: returning_def c)
    with Cons.IH [OF rest] show ?thesis
      by (simp add: drifted_front del: drifted.simps)
  qed
qed

lemma drifted_exact:
  assumes "fl r = r" and "\<forall>k\<le>n. fl (a + real k * r) = a + real k * r"
  shows "drifted a r n = a + real n * r"
  using assms(2)
proof (induction n)
  case 0
  then show ?case by simp
next
  case (Suc n)
  from Suc.prems have "\<forall>k\<le>n. fl (a + real k * r) = a + real k * r" by simp
  from Suc.IH [OF this] have d: "drifted a r n = a + real n * r" .
  from Suc.prems have e: "fl (a + real n * r) = a + real n * r"
    by (metis le_SucI order_refl)
  from Suc.prems have f: "fl (a + real (Suc n) * r) = a + real (Suc n) * r"
    by (metis order_refl)
  have g: "a + real n * r + r = a + real (Suc n) * r"
    by (simp add: algebra_simps)
  have "drifted a r (Suc n) = fl (fl (a + real n * r) + fl r)"
    by (simp add: fadd_def d)
  also have "\<dots> = fl (a + real n * r + r)"
    by (simp only: e assms(1))
  also have "\<dots> = a + real (Suc n) * r"
    by (simp only: g f)
  finally show ?case .
qed

lemma fadd_ge:
  assumes "0 \<le> r"
  shows "fl x \<le> fadd x r"
proof -
  have "0 \<le> fl r" using assms by (rule fl_nonneg)
  then have "fl x \<le> fl x + fl r" by simp
  then have "fl (fl x) \<le> fl (fl x + fl r)" by (rule fl_mono)
  then show ?thesis by (simp add: fadd_def fl_fl)
qed

lemma fl_drifted:
  assumes "fl a = a"
  shows "fl (drifted a r n) = drifted a r n"
  using assms by (cases n) (simp_all add: fadd_def fl_fl)

lemma drifted_mono:
  assumes "0 \<le> r" "fl a = a" "m \<le> n"
  shows "drifted a r m \<le> drifted a r n"
  using assms(3)
proof (induction n)
  case 0
  then show ?case by simp
next
  case (Suc n)
  show ?case
  proof (cases "m = Suc n")
    case True
    then show ?thesis by simp
  next
    case False
    with Suc.prems have "m \<le> n" by simp
    then have "drifted a r m \<le> drifted a r n" by (rule Suc.IH)
    also have "\<dots> = fl (drifted a r n)" using fl_drifted [OF assms(2)] by simp
    also have "\<dots> \<le> fadd (drifted a r n) r" using assms(1) by (rule fadd_ge)
    finally show ?thesis by simp
  qed
qed

lemma returning_take_mono:
  assumes "m \<le> n"
  shows "returning (take m cs) \<le> returning (take n cs)"
proof -
  have "take n cs = take m cs @ take (n - m) (drop m cs)"
    using assms by (metis le_add_diff_inverse take_add)
  then show ?thesis by (simp add: returning_def)
qed

lemma DriftUp_offset_after:
  "DriftUpScenario.current_offset (fst (snd (calls DriftUpScenario_get_value s g cs))) =
     drifted (DriftUpScenario.current_offset s) (DriftUpScenario.drift_rate s) (returning cs)"
  using DriftUp_calls_offset [of s g cs]
  by (cases "calls DriftUpScenario_get_value s g cs") auto

lemma returning_all:
  "(\<forall>c\<in>set cs. \<bar>fst c - 1\<bar> < 2 ^ 1024 - 2 ^ 970) \<Longrightarrow> returning cs = length cs"
  by (induction cs) (simp_all add: returning_def int_to_float_def)

text \<open>
  C9, as stated, fails: the offset is a binary64 sum, and each addition of the rate rounds.
  A new \<open>drift_up\<close> object has the rate 0.1 and the offset 0; after eight calls its offset
  is 7205759403792793 / 2^53 (printed 0.7999999999999999), which is neither eight times
  0.1 in the reals nor the binary64 product of 8 and 0.1.
\<close>

theorem drift_up_offset_counterexample:
  "fst (get_scenario ''drift_up'' no_kwargs (constant_draws (1 / 2)))
     = DriftUp (BaseScenario.extend (BaseScenario_init no_kwargs) (DriftUpScenario.fields 0.1 0)) \<and>
   DriftUpScenario.drift_rate (BaseScenario.extend (BaseScenario_init no_kwargs) (DriftUpScenario.fields 0.1 0)) = 0.1 \<and>
   DriftUpScenario.current_offset (BaseScenario.extend (BaseScenario_init no_kwargs) (DriftUpScenario.fields 0.1 0)) = 0 \<and>
   DriftUpScenario.current_offset (fst (snd (calls DriftUpScenario_get_value
     (BaseScenario.extend (BaseScenario_init no_kwargs) (DriftUpScenario.fields 0.1 0))
     (constant_draws (1 / 2))
     [(1, Map.empty), (1, Map.empty), (1, Map.empty), (1, Map.empty),
      (1, Map.empty), (1, Map.empty), (1, Map.empty), (1, Map.empty)])))
     = 7205759403792793 / 9007199254740992 \<and>
   (7205759403792793 / 9007199254740992 :: real) \<noteq> 8 * 0.1 \<and>
   7205759403792793 / 9007199254740992 \<noteq> fmul 8 0.1"
proof -
  let ?s = "(BaseScenario.extend (BaseScenario_init no_kwargs) (DriftUpScenario.fields 0.1 0))"
  let ?g = "constant_draws (1 / 2)"
  let ?cs = "[(1 :: int, Map.empty :: limits), (1, Map.empty), (1, Map.empty), (1, Map.empty),
      (1, Map.empty), (1, Map.empty), (1, Map.empty), (1, Map.empty)]"
  let ?r = "calls DriftUpScenario_get_value ?s ?g ?cs"
  have a: "fst (get_scenario ''drift_up'' no_kwargs ?g) = DriftUp ?s"
    by (simp add: get_scenario_def SCENARIOS_def arg_def no_kwargs_def)
  have h: "DriftUpScenario.drift_rate ?s = 0.1" "DriftUpScenario.current_offset ?s = 0"
    by (simp_all add: BaseScenario.extend_def DriftUpScenario.fields_def)
  have r: "?r = (fst ?r, fst (snd ?r), snd (snd ?r))"
    by simp
  have n: "returning ?cs = 8"
    by (simp add: returning_def int_to_float_def)
  have d: "drifted 0 0.1 8 = 7205759403792793 / 9007199254740992"
    by (simp add: eval_nat_numeral fl_ops)
  have o: "DriftUpScenario.current_offset (fst (snd ?r)) = 7205759403792793 / 9007199254740992"
    using DriftUp_calls_offset [OF r] h n d by simp
  have p: "(7205759403792793 / 9007199254740992 :: real) \<noteq> 8 * 0.1"
    by simp
  have q: "7205759403792793 / 9007199254740992 \<noteq> fmul 8 0.1"
    by (simp add: fl_ops)
  show ?thesis
    by (intro conjI a h o p q)
qed

text \<open>
  C9, amended. A call of \<open>DriftUpScenario.get_value\<close> whose sensor id converts to a
  \<^verbatim>\<open>float\<close> adds \<open>drift_rate\<close> to the offset in binary64, rounding the sum, before it
  computes the values, and leaves the rate unchanged; a call whose sensor id does not
  convert raises \<open>OverflowError\<close> and leaves the object as it was. So after a sequence of
  calls the offset is the initial offset with the rate added once for each call that
  returned, a rounding at each addition; this is the initial offset plus N times the rate
  when the rate and every partial sum are binary64 numbers, and not in general. With a
  rate that is not negative, and an initial offset that is a binary64 number, the offsets
  along the sequence never decrease. In a call the new offset is added to the temperature base and the sensor bias, and half of
  it is subtracted from the humidity base, each operation rounding, before the noise is
  added and the value is clamped and rounded to one decimal.
\<close>

theorem drift_up_offset:
  assumes "calls DriftUpScenario_get_value s g cs = (rs, s', g')"
  shows "DriftUpScenario.current_offset s' =
           drifted (DriftUpScenario.current_offset s) (DriftUpScenario.drift_rate s)
             (returning cs) \<and>
         DriftUpScenario.drift_rate s' = DriftUpScenario.drift_rate s \<and>
         ((\<forall>c\<in>set cs. \<bar>fst c - 1\<bar> < 2 ^ 1024 - 2 ^ 970) \<longrightarrow> returning cs = length cs) \<and>
         (fl (DriftUpScenario.drift_rate s) = DriftUpScenario.drift_rate s \<and>
          (\<forall>k\<le>returning cs.
             fl (DriftUpScenario.current_offset s + real k * DriftUpScenario.drift_rate s)
               = DriftUpScenario.current_offset s + real k * DriftUpScenario.drift_rate s) \<longrightarrow>
            DriftUpScenario.current_offset s' =
              DriftUpScenario.current_offset s
                + real (returning cs) * DriftUpScenario.drift_rate s) \<and>
         (0 \<le> DriftUpScenario.drift_rate s \<and>
          fl (DriftUpScenario.current_offset s) = DriftUpScenario.current_offset s \<longrightarrow>
            (\<forall>m n. m \<le> n \<and> n \<le> length cs \<longrightarrow>
               DriftUpScenario.current_offset
                 (fst (snd (calls DriftUpScenario_get_value s g (take m cs))))
               \<le> DriftUpScenario.current_offset
                    (fst (snd (calls DriftUpScenario_get_value s g (take n cs)))))) \<and>
         (int_to_float (i - 1) = Inl e \<longrightarrow>
            DriftUpScenario_get_value s i lims g = Inl (e, s, g)) \<and>
         (int_to_float (i - 1) = Inr n \<longrightarrow>
            DriftUpScenario_get_value s i lims g =
              Inr (classified_value
                 (py_round1 (clamp
                    (fadd (fadd (fadd (temp_base s) (fmul n 0.3))
                             (fadd (DriftUpScenario.current_offset s)
                                (DriftUpScenario.drift_rate s)))
                       (fst (random_uniform (fmul (- temp_variation s) 0.5)
                               (fmul (temp_variation s) 0.5) g)))
                    (temp_min s) (temp_max s)))
                 (py_round1 (clamp
                    (fadd (fsub (hum_base s)
                             (fmul (fadd (DriftUpScenario.current_offset s)
                                      (DriftUpScenario.drift_rate s))
                                0.5))
                       (fst (random_uniform (- hum_variation s) (hum_variation s)
                               (snd (random_uniform (fmul (- temp_variation s) 0.5)
                                       (fmul (temp_variation s) 0.5) g)))))
                    (hum_min s) (hum_max s)))
                 lims,
               s\<lparr>DriftUpScenario.current_offset :=
                    fadd (DriftUpScenario.current_offset s) (DriftUpScenario.drift_rate s)\<rparr>,
               snd (random_uniform (- hum_variation s) (hum_variation s)
                      (snd (random_uniform (fmul (- temp_variation s) 0.5)
                              (fmul (temp_variation s) 0.5) g)))))"
proof -
  note a = DriftUp_calls_offset [OF assms]
  have b: "(\<forall>c\<in>set cs. \<bar>fst c - 1\<bar> < 2 ^ 1024 - 2 ^ 970) \<longrightarrow> returning cs = length cs"
    using returning_all by blast
  have c: "fl (DriftUpScenario.drift_rate s) = DriftUpScenario.drift_rate s \<and>
          (\<forall>k\<le>returning cs.
             fl (DriftUpScenario.current_offset s + real k * DriftUpScenario.drift_rate s)
               = DriftUpScenario.current_offset s + real k * DriftUpScenario.drift_rate s) \<longrightarrow>
            DriftUpScenario.current_offset s' =
              DriftUpScenario.current_offset s
                + real (returning cs) * DriftUpScenario.drift_rate s"
    using a drifted_exact by simp
  have d: "0 \<le> DriftUpScenario.drift_rate s \<and>
          fl (DriftUpScenario.current_offset s) = DriftUpScenario.current_offset s \<longrightarrow>
            (\<forall>m n. m \<le> n \<and> n \<le> length cs \<longrightarrow>
               DriftUpScenario.current_offset
                 (fst (snd (calls DriftUpScenario_get_value s g (take m cs))))
               \<le> DriftUpScenario.current_offset
                    (fst (snd (calls DriftUpScenario_get_value s g (take n cs)))))"
    by (auto simp: DriftUp_offset_after intro!: drifted_mono returning_take_mono)
  show ?thesis
    using a b c d DriftUp_raises [of i e s lims g] DriftUp_returns [of i n s lims g] by blast
qed


theorem drift_up_offset_witness:
  "returning [(1, Map.empty), (10 ^ 309, Map.empty), (2, Map.empty)] = 2 \<and>
   DriftUpScenario.current_offset (fst (snd (calls DriftUpScenario_get_value
     (BaseScenario.extend (BaseScenario_init no_kwargs) (DriftUpScenario.fields 0.1 0))
     (constant_draws (1 / 2)) [(1, Map.empty), (10 ^ 309, Map.empty), (2, Map.empty)])))
     = 3602879701896397 / 18014398509481984 \<and>
   DriftUpScenario.drift_rate (fst (snd (calls DriftUpScenario_get_value
     (BaseScenario.extend (BaseScenario_init no_kwargs) (DriftUpScenario.fields 0.1 0))
     (constant_draws (1 / 2)) [(1, Map.empty), (10 ^ 309, Map.empty), (2, Map.empty)])))
     = 0.1 \<and>
   int_to_float (1 - 1) = Inr 0 \<and>
   DriftUpScenario_get_value
     (BaseScenario.extend (BaseScenario_init no_kwargs) (DriftUpScenario.fields 0.1 0))
     1 Map.empty (constant_draws (1 / 2))
   = Inr (\<lparr>temperature = 22.1, humidity = 45, temp_status = ''normal'', hum_status = ''normal'',
           combined_status = ''normal'', modbus_error = None\<rparr>,
          (BaseScenario.extend (BaseScenario_init no_kwargs) (DriftUpScenario.fields 0.1 0))
            \<lparr>DriftUpScenario.current_offset := 3602879701896397 / 36028797018963968\<rparr>,
          constant_draws (1 / 2)) \<and>
   int_to_float (10 ^ 309 - 1) = Inl OverflowError \<and>
   DriftUpScenario_get_value
     (BaseScenario.extend (BaseScenario_init no_kwargs) (DriftUpScenario.fields 0.1 0))
     (10 ^ 309) Map.empty (constant_draws (1 / 2))
   = Inl (OverflowError,
          (BaseScenario.extend (BaseScenario_init no_kwargs) (DriftUpScenario.fields 0.1 0)),
          constant_draws (1 / 2)) \<and>
   (0 :: real) \<le> 0.1 \<and> (1 :: nat) \<le> 3 \<and>
   3 \<le> length [(1 :: int, Map.empty :: limits), (10 ^ 309, Map.empty), (2, Map.empty)] \<and>
   DriftUpScenario.current_offset (fst (snd (calls DriftUpScenario_get_value
     (BaseScenario.extend (BaseScenario_init no_kwargs) (DriftUpScenario.fields 0.1 0))
     (constant_draws (1 / 2))
     (take 1 [(1, Map.empty), (10 ^ 309, Map.empty), (2, Map.empty)]))))
   \<le> DriftUpScenario.current_offset (fst (snd (calls DriftUpScenario_get_value
     (BaseScenario.extend (BaseScenario_init no_kwargs) (DriftUpScenario.fields 0.1 0))
     (constant_draws (1 / 2))
     (take 3 [(1, Map.empty), (10 ^ 309, Map.empty), (2, Map.empty)])))) \<and>
   fl 0.5 = 0.5 \<and> fl 0 = 0 \<and> fl 1 = 1 \<and>
   returning [(1, Map.empty), (2, Map.empty)]
     = length [(1 :: int, Map.empty :: limits), (2, Map.empty)] \<and>
   DriftUpScenario.current_offset (fst (snd (calls DriftUpScenario_get_value
     (BaseScenario.extend (BaseScenario_init no_kwargs) (DriftUpScenario.fields 0.5 0))
     (constant_draws (1 / 2)) [(1, Map.empty), (2, Map.empty)]))) = 1"
proof -
  let ?s = "(BaseScenario.extend (BaseScenario_init no_kwargs) (DriftUpScenario.fields 0.1 0))"
  let ?h = "(BaseScenario.extend (BaseScenario_init no_kwargs) (DriftUpScenario.fields 0.5 0))"
  let ?g = "constant_draws (1 / 2)"
  let ?cs = "[(1 :: int, Map.empty :: limits), (10 ^ 309, Map.empty), (2, Map.empty)]"
  let ?ds = "[(1 :: int, Map.empty :: limits), (2, Map.empty)]"
  let ?r = "calls DriftUpScenario_get_value ?s ?g ?cs"
  let ?q = "calls DriftUpScenario_get_value ?h ?g ?ds"
  note st_eval = no_kwargs_def BaseScenario_init_def arg_def BaseScenario.extend_def
    DriftUpScenario.fields_def
  note val_eval = st_eval rnd constant_draws_def clamp_def py_round1_def round_half_even_def
    classified_value_def calculate_status_def limits_get_def get_combined_status_def fl_ops
    Let_def
  have r: "?r = (fst ?r, fst (snd ?r), snd (snd ?r))"
    by simp
  have q: "?q = (fst ?q, fst (snd ?q), snd (snd ?q))"
    by simp
  have hs: "DriftUpScenario.drift_rate ?s = 0.1" "DriftUpScenario.current_offset ?s = 0"
    by (simp_all add: st_eval)
  have n: "returning ?cs = 2"
    by (simp add: returning_def int_to_float_def)
  have d: "drifted 0 0.1 2 = 3602879701896397 / 18014398509481984"
    by (simp add: eval_nat_numeral fl_ops)
  note t = drift_up_offset [OF r]
  have o: "DriftUpScenario.current_offset (fst (snd ?r)) = 3602879701896397 / 18014398509481984"
    using t [THEN conjunct1] hs n d by simp
  have k: "DriftUpScenario.drift_rate (fst (snd ?r)) = 0.1"
    using t [THEN conjunct2, THEN conjunct1] hs by simp
  have i1: "int_to_float (1 - 1) = Inr 0"
    by (simp add: int_to_float_def)
  have i2: "int_to_float (10 ^ 309 - 1) = Inl OverflowError"
    by (simp add: int_to_float_def)
  note v1 = drift_up_offset [OF r, where i = 1 and n = 0 and lims = Map.empty,
      THEN conjunct2, THEN conjunct2, THEN conjunct2, THEN conjunct2, THEN conjunct2,
      THEN conjunct2, THEN mp, OF i1]
  have c1: "DriftUpScenario_get_value ?s 1 Map.empty ?g
    = Inr (\<lparr>temperature = 22.1, humidity = 45, temp_status = ''normal'', hum_status = ''normal'',
           combined_status = ''normal'', modbus_error = None\<rparr>,
          ?s\<lparr>DriftUpScenario.current_offset := 3602879701896397 / 36028797018963968\<rparr>, ?g)"
    unfolding v1 by (simp add: val_eval)
  note c2 = drift_up_offset [OF r, where i = "10 ^ 309" and e = OverflowError
      and lims = Map.empty,
      THEN conjunct2, THEN conjunct2, THEN conjunct2, THEN conjunct2, THEN conjunct2,
      THEN conjunct1, THEN mp, OF i2]
  have f: "fl 0.5 = 0.5" "fl 0 = 0" "fl 1 = 1"
    by (simp_all add: fl_ops)
  have mh: "0 \<le> DriftUpScenario.drift_rate ?s"
    "fl (DriftUpScenario.current_offset ?s) = DriftUpScenario.current_offset ?s"
    by (simp_all add: st_eval fl_ops)
  have ml: "(0 :: real) \<le> 0.1" "(1 :: nat) \<le> 3" "3 \<le> length ?cs"
    by simp_all
  from t [THEN conjunct2, THEN conjunct2, THEN conjunct2, THEN conjunct2, THEN conjunct1] mh
  have "\<forall>m n. m \<le> n \<and> n \<le> length ?cs \<longrightarrow>
      DriftUpScenario.current_offset (fst (snd (calls DriftUpScenario_get_value ?s ?g (take m ?cs))))
      \<le> DriftUpScenario.current_offset
           (fst (snd (calls DriftUpScenario_get_value ?s ?g (take n ?cs))))"
    by blast
  with ml have mono:
    "DriftUpScenario.current_offset (fst (snd (calls DriftUpScenario_get_value ?s ?g (take 1 ?cs))))
     \<le> DriftUpScenario.current_offset
          (fst (snd (calls DriftUpScenario_get_value ?s ?g (take 3 ?cs))))"
    by blast
  note u = drift_up_offset [OF q]
  have a: "\<forall>c\<in>set ?ds. \<bar>fst c - 1\<bar> < 2 ^ 1024 - 2 ^ 970"
    by simp
  have l: "returning ?ds = length ?ds"
    using u [THEN conjunct2, THEN conjunct2, THEN conjunct1] a by blast
  have x: "\<forall>k\<le>returning ?ds.
             fl (DriftUpScenario.current_offset ?h + real k * DriftUpScenario.drift_rate ?h)
               = DriftUpScenario.current_offset ?h + real k * DriftUpScenario.drift_rate ?h"
  proof (intro allI impI)
    fix k assume "k \<le> returning ?ds"
    with l have "k = 0 \<or> k = 1 \<or> k = 2" by auto
    then show "fl (DriftUpScenario.current_offset ?h + real k * DriftUpScenario.drift_rate ?h)
               = DriftUpScenario.current_offset ?h + real k * DriftUpScenario.drift_rate ?h"
      by (auto simp: st_eval fl_ops)
  qed
  have y: "fl (DriftUpScenario.drift_rate ?h) = DriftUpScenario.drift_rate ?h"
    by (simp add: st_eval fl_ops)
  have "DriftUpScenario.current_offset (fst (snd ?q)) =
          DriftUpScenario.current_offset ?h + real (returning ?ds) * DriftUpScenario.drift_rate ?h"
    using u [THEN conjunct2, THEN conjunct2, THEN conjunct2, THEN conjunct1] x y by blast
  then have z: "DriftUpScenario.current_offset (fst (snd ?q)) = 1"
    by (simp add: l st_eval)
  show ?thesis
    by (intro conjI n o k i1 c1 i2 c2 ml mono f l z)
qed



section \<open>Limits with missing keys\<close>

lemma limits_get_defaults:
  "limits_get (default_limits ++ lims) ''temp_min'' (- 10) = limits_get lims ''temp_min'' (- 10)"
  "limits_get (default_limits ++ lims) ''temp_max'' 40 = limits_get lims ''temp_max'' 40"
  "limits_get (default_limits ++ lims) ''temp_warning_delta'' 3
     = limits_get lims ''temp_warning_delta'' 3"
  "limits_get (default_limits ++ lims) ''temp_alarm_delta'' 5
     = limits_get lims ''temp_alarm_delta'' 5"
  "limits_get (default_limits ++ lims) ''hum_min'' 20 = limits_get lims ''hum_min'' 20"
  "limits_get (default_limits ++ lims) ''hum_max'' 80 = limits_get lims ''hum_max'' 80"
  "limits_get (default_limits ++ lims) ''hum_warning_delta'' 5
     = limits_get lims ''hum_warning_delta'' 5"
  "limits_get (default_limits ++ lims) ''hum_alarm_delta'' 10
     = limits_get lims ''hum_alarm_delta'' 10"
  by (simp_all add: limits_get_def default_limits_def map_add_def split: option.splits)

lemma classified_value_defaults:
  "classified_value t h (default_limits ++ lims) = classified_value t h lims"
  by (simp add: classified_value_def limits_get_defaults)

lemma get_value_defaults:
  "get_value sc i (default_limits ++ lims) now g = get_value sc i lims now g"
  by (cases sc)
     (simp_all add: get_value_defs Let_def rnd classified_value_defaults
        split: prod.splits sum.splits)

text \<open>
  C8, as stated, fails on the scenarios that write the status normal without classifying:
  with an empty limits dictionary they do not classify against the defaults either. A CRC
  error scenario around 60 degrees, called with empty limits, returns 60.0 with the status
  normal, where the default limits classify 60.0 as alarm.
\<close>

theorem missing_limits_counterexample:
  "get_value
     (fst (get_scenario ''crc_error''
        (no_kwargs\<lparr>kw_temp_base := Some 60, kw_temp_variation := Some 0\<rparr>)
        (constant_draws (1 / 2))))
     1 Map.empty (12, 0) (constant_draws (1 / 2))
   = Inr (\<lparr>temperature = 60, humidity = 45, temp_status = ''normal'', hum_status = ''normal'',
           combined_status = ''normal'', modbus_error = None\<rparr>,
          fst (get_scenario ''crc_error''
            (no_kwargs\<lparr>kw_temp_base := Some 60, kw_temp_variation := Some 0\<rparr>)
            (constant_draws (1 / 2))),
          constant_draws (1 / 2))
   \<and> calculate_status 60 (- 10) 40 3 5 = ''alarm''
   \<and> ''normal'' \<noteq> ''alarm''"
  by (simp add: eval_defs)

text \<open>
  C8, amended. For every scenario a missing key of the limits dictionary raises nothing:
  the call does exactly what it does with every missing key set to its default (temp_min
  -10, temp_max 40, temp_warning_delta 3, temp_alarm_delta 5, hum_min 20, hum_max 80,
  hum_warning_delta 5, hum_alarm_delta 10), so a call with the empty dictionary is a call
  with the dictionary of the defaults. In a scenario other than \<open>TimeoutScenario\<close>,
  \<open>CRCErrorScenario\<close> and \<open>PowerOutageScenario\<close>, a call with the empty dictionary that
  returns no fault reading classifies against exactly these defaults.
\<close>

theorem missing_limits_defaults:
  "get_value sc i lims now g = get_value sc i (default_limits ++ lims) now g \<and>
   get_value sc i Map.empty now g = get_value sc i default_limits now g \<and>
   default_limits ''temp_min'' = Some (- 10) \<and> default_limits ''temp_max'' = Some 40 \<and>
   default_limits ''temp_warning_delta'' = Some 3 \<and>
   default_limits ''temp_alarm_delta'' = Some 5 \<and>
   default_limits ''hum_min'' = Some 20 \<and> default_limits ''hum_max'' = Some 80 \<and>
   default_limits ''hum_warning_delta'' = Some 5 \<and>
   default_limits ''hum_alarm_delta'' = Some 10 \<and>
   (get_value sc i Map.empty now g = Inr (v, sc', g') \<and> modbus_error v = None \<and>
    \<not> forces_normal sc \<longrightarrow>
      temp_status v = calculate_status (temperature v) (- 10) 40 3 5 \<and>
      hum_status v = calculate_status (humidity v) 20 80 5 10 \<and>
      combined_status v = get_combined_status (temp_status v) (hum_status v))"
proof -
  have a: "get_value sc i lims now g = get_value sc i (default_limits ++ lims) now g"
    by (simp add: get_value_defaults)
  have b: "get_value sc i Map.empty now g = get_value sc i default_limits now g"
    using get_value_defaults [of sc i Map.empty now g] by simp
  have d: "default_limits ''temp_min'' = Some (- 10)" "default_limits ''temp_max'' = Some 40"
    "default_limits ''temp_warning_delta'' = Some 3" "default_limits ''temp_alarm_delta'' = Some 5"
    "default_limits ''hum_min'' = Some 20" "default_limits ''hum_max'' = Some 80"
    "default_limits ''hum_warning_delta'' = Some 5" "default_limits ''hum_alarm_delta'' = Some 10"
    by (simp_all add: default_limits_def)
  have e: "get_value sc i Map.empty now g = Inr (v, sc', g') \<and> modbus_error v = None \<and>
    \<not> forces_normal sc \<longrightarrow>
      temp_status v = calculate_status (temperature v) (- 10) 40 3 5 \<and>
      hum_status v = calculate_status (humidity v) 20 80 5 10 \<and>
      combined_status v = get_combined_status (temp_status v) (hum_status v)"
  proof (intro impI, elim conjE)
    assume r: "get_value sc i Map.empty now g = Inr (v, sc', g')"
      and m: "modbus_error v = None" and n: "\<not> forces_normal sc"
    from get_value_outcome [OF r] n
    have "outcome False (temp_min (base_of sc)) (temp_max (base_of sc))
            (hum_min (base_of sc)) (hum_max (base_of sc)) Map.empty v"
      by simp
    from outcome_classifies [OF this m]
    show "temp_status v = calculate_status (temperature v) (- 10) 40 3 5 \<and>
      hum_status v = calculate_status (humidity v) 20 80 5 10 \<and>
      combined_status v = get_combined_status (temp_status v) (hum_status v)"
      by (simp add: limits_get_def)
  qed
  show ?thesis
    by (intro conjI a b d e)
qed

theorem missing_limits_defaults_witness:
  "get_value (fst (get_scenario ''normal'' no_kwargs (constant_draws (1 / 2))))
     1 Map.empty (12, 0) (constant_draws (1 / 2))
   = Inr (\<lparr>temperature = 22, humidity = 45, temp_status = ''normal'', hum_status = ''normal'',
           combined_status = ''normal'', modbus_error = None\<rparr>,
          fst (get_scenario ''normal'' no_kwargs (constant_draws (1 / 2))),
          constant_draws (1 / 2)) \<and>
   \<not> forces_normal (fst (get_scenario ''normal'' no_kwargs (constant_draws (1 / 2)))) \<and>
   ''normal'' = calculate_status 22 (- 10) 40 3 5 \<and>
   ''normal'' = calculate_status 45 20 80 5 10"
proof -
  let ?sc = "fst (get_scenario ''normal'' no_kwargs (constant_draws (1 / 2)))"
  let ?v = "\<lparr>temperature = 22, humidity = 45, temp_status = ''normal'', hum_status = ''normal'',
           combined_status = ''normal'', modbus_error = None\<rparr>"
  have r: "get_value ?sc 1 Map.empty (12, 0) (constant_draws (1 / 2))
           = Inr (?v, ?sc, constant_draws (1 / 2))"
    by (simp add: eval_defs)
  have m: "modbus_error ?v = None" by simp
  have n: "\<not> forces_normal ?sc"
    by (simp add: eval_defs)
  from missing_limits_defaults [of ?sc 1 _ "(12, 0)" "constant_draws (1 / 2)" ?v ?sc
      "constant_draws (1 / 2)"] r m n
  have c: "temp_status ?v = calculate_status (temperature ?v) (- 10) 40 3 5 \<and>
           hum_status ?v = calculate_status (humidity ?v) 20 80 5 10"
    by blast
  have c1: "''normal'' = calculate_status 22 (- 10) 40 3 5"
    using c [THEN conjunct1] by simp
  have c2: "''normal'' = calculate_status 45 20 80 5 10"
    using c [THEN conjunct2] by simp
  show ?thesis
    by (intro conjI r n c1 c2)
qed



end
